theory Spec2Isabelle
  imports Complex_Main
begin

section \<open>JavaScript strings\<close>

text \<open>
  A JavaScript string is a sequence of UTF-16 code units. The two patterns of
  \<^verbatim>\<open>server.ts\<close> have no \<^verbatim>\<open>u\<close> flag, so the regular expression engine works
  on code units; a code unit is modelled by its number. \<open>js\<close> turns an ASCII literal
  into such a string.
\<close>

type_synonym jsstring = "nat list"

definition js :: "string \<Rightarrow> jsstring" where
  "js s = map of_char s"

section \<open>The regular expressions of the two scans\<close>

text \<open>
  The fragment of ECMAScript patterns that \<^verbatim>\<open>server.ts\<close> uses: the assertion
  \<^verbatim>\<open>\b\<close>, a character class matching one code unit (a list of inclusive ranges,
  which also stands for the class escape \<^verbatim>\<open>\s\<close>), and a class under the greedy
  quantifier \<^verbatim>\<open>{n,}\<close>. A pattern is the sequence of its terms.
\<close>

type_synonym charclass = "(nat \<times> nat) list"

datatype node =
    WordBoundary
  | CharClass charclass
  | AtLeast nat charclass

definition inClass :: "charclass \<Rightarrow> nat \<Rightarrow> bool" where
  "inClass cs c = list_ex (\<lambda>(lo, hi). lo \<le> c \<and> c \<le> hi) cs"

text \<open>\<^verbatim>\<open>\w\<close>: the word characters \<^verbatim>\<open>[A-Za-z0-9_]\<close> that \<^verbatim>\<open>\b\<close> looks at.\<close>

definition wordChars :: charclass where
  "wordChars = [(97, 122), (65, 90), (48, 57), (95, 95)]"

text \<open>
  \<^verbatim>\<open>\s\<close>: the ECMAScript white space and line terminator code units (tab, line
  feed, vertical tab, form feed, carriage return, space, no-break space, U+1680,
  U+2000 to U+200A, U+2028, U+2029, U+202F, U+205F, U+3000, U+FEFF).
\<close>

definition whiteSpace :: charclass where
  "whiteSpace = [(9, 13), (32, 32), (160, 160), (5760, 5760), (8192, 8202),
     (8232, 8233), (8239, 8239), (8287, 8287), (12288, 12288), (65279, 65279)]"

text \<open>
  The class \<^verbatim>\<open>[>|<|+|\-|*|...]\<close> of the first pattern, in the order written:
  \<^verbatim>\<open>>\<close>, \<^verbatim>\<open>|\<close> (inside a class the bar is an ordinary member), \<^verbatim>\<open><\<close>,
  \<^verbatim>\<open>+\<close>, \<^verbatim>\<open>-\<close>, \<^verbatim>\<open>*\<close>, and the code units U+2192 (right arrow), U+2264
  (less or equal), U+2265 (greater or equal), U+2260 (not equal).
\<close>

definition operatorChars :: charclass where
  "operatorChars = [(62, 62), (124, 124), (60, 60), (43, 43), (45, 45), (42, 42),
     (8594, 8594), (8804, 8804), (8805, 8805), (8800, 8800)]"

text \<open>\<^verbatim>\<open>[A-Z]\<close>\<close>

definition upperCase :: charclass where
  "upperCase = [(65, 90)]"

text \<open>\<^verbatim>\<open>/\b\s[>|<|+|\-|*|...]\s\b/g\<close> of \<^verbatim>\<open>documents.onDidChangeContent\<close>.\<close>

definition operatorPattern :: "node list" where
  "operatorPattern =
     [WordBoundary, CharClass whiteSpace, CharClass operatorChars, CharClass whiteSpace,
      WordBoundary]"

text \<open>\<^verbatim>\<open>/\b[A-Z]{2,}\b/g\<close> of \<^verbatim>\<open>validateTextDocument\<close>.\<close>

definition upperCasePattern :: "node list" where
  "upperCasePattern = [WordBoundary, AtLeast 2 upperCase, WordBoundary]"

text \<open>
  \<^verbatim>\<open>\b\<close> holds at position \<open>e\<close> when exactly one of the code units before and
  after \<open>e\<close> is a word character; outside the text there is no word character.
\<close>

definition isWordBoundary :: "jsstring \<Rightarrow> nat \<Rightarrow> bool" where
  "isWordBoundary t e =
     ((0 < e \<and> e \<le> length t \<and> inClass wordChars (t ! (e - 1))) \<noteq>
      (e < length t \<and> inClass wordChars (t ! e)))"

text \<open>The first alternative that succeeds, in the order tried.\<close>

fun firstSome :: "('a \<Rightarrow> 'b option) \<Rightarrow> 'a list \<Rightarrow> 'b option" where
  "firstSome f [] = None"
| "firstSome f (x # xs) = (case f x of Some r \<Rightarrow> Some r | None \<Rightarrow> firstSome f xs)"

text \<open>
  The backtracking matcher: \<open>matchAt p t i\<close> is the end of the match of pattern \<open>p\<close>
  that starts at position \<open>i\<close> of \<open>t\<close>, if there is one. The greedy quantifier takes
  the longest run of class members first and gives one back at a time, down to its
  minimum, until the rest of the pattern matches.
\<close>

fun matchAt :: "node list \<Rightarrow> jsstring \<Rightarrow> nat \<Rightarrow> nat option" where
  "matchAt [] t i = Some i"
| "matchAt (WordBoundary # p) t i =
     (if isWordBoundary t i then matchAt p t i else None)"
| "matchAt (CharClass cs # p) t i =
     (if i < length t \<and> inClass cs (t ! i) then matchAt p t (i + 1) else None)"
| "matchAt (AtLeast n cs # p) t i =
     (let k = length (takeWhile (inClass cs) (drop i t))
      in firstSome (\<lambda>j. matchAt p t (i + j)) (rev [n..<Suc k]))"

text \<open>
  The result of \<^verbatim>\<open>RegExp.prototype.exec\<close>: \<^verbatim>\<open>m.index\<close> and \<^verbatim>\<open>m[0]\<close>.
\<close>

record RegExpExecArray =
  index :: nat
  matched :: jsstring

text \<open>
  \<^verbatim>\<open>pattern.exec(text)\<close> for a pattern with the \<^verbatim>\<open>g\<close> flag. The pattern object
  carries \<^verbatim>\<open>lastIndex\<close>: the search tries the positions from \<^verbatim>\<open>lastIndex\<close> to
  the end of the text in turn; a match sets \<^verbatim>\<open>lastIndex\<close> to its end, a failure
  returns \<^verbatim>\<open>null\<close> and resets \<^verbatim>\<open>lastIndex\<close> to 0. The result is the match and
  the new \<^verbatim>\<open>lastIndex\<close>.
\<close>

definition exec :: "node list \<Rightarrow> jsstring \<Rightarrow> nat \<Rightarrow> RegExpExecArray option \<times> nat" where
  "exec p t lastIndex =
     (case firstSome (\<lambda>i. map_option (Pair i) (matchAt p t i)) [lastIndex..<Suc (length t)] of
        None \<Rightarrow> (None, 0)
      | Some (i, e) \<Rightarrow> (Some \<lparr>index = i, matched = take (e - i) (drop i t)\<rparr>, e))"

section \<open>Diagnostics\<close>

datatype DiagnosticSeverity = Error | Warning | Information | Hint

record 'p Range =
  range_start :: 'p
  range_end :: 'p

record 'p Diagnostic =
  severity :: DiagnosticSeverity
  range :: "'p Range"
  message :: jsstring
  source :: jsstring

text \<open>
  The object literal built in the body of both loops. \<^verbatim>\<open>textDocument.positionAt\<close>
  belongs to the text document library, not to this repository; it is the parameter
  \<open>positionAt\<close>, applied to the two offsets that the code computes
  (\<^verbatim>\<open>m.index - 1\<close> and \<^verbatim>\<open>m.index + m[0].length + 1\<close>).
\<close>

definition mkDiagnostic ::
  "DiagnosticSeverity \<Rightarrow> (int \<Rightarrow> 'p) \<Rightarrow> RegExpExecArray \<Rightarrow> 'p Diagnostic" where
  "mkDiagnostic sev positionAt m =
     \<lparr>severity = sev,
      range = \<lparr>range_start = positionAt (int (index m) - 1),
               range_end = positionAt (int (index m) + int (length (matched m)) + 1)\<rparr>,
      message = matched m @ js '' is surrounded by spaces.'',
      source = js ''ex''\<rparr>"

text \<open>
  The \<^verbatim>\<open>while\<close> loop that both scans share word for word, up to the pattern, the
  severity and the bound on \<^verbatim>\<open>problems\<close>:
  \<^verbatim>\<open>while ((m = pattern.exec(text)) && problems < limit) { problems++; ...push... }\<close>.
  \<^verbatim>\<open>exec\<close> runs first; the bound is looked at only after a match. The counter
  \<^verbatim>\<open>problems\<close> is an integer; the bound is any finite JavaScript number, whole or
  not.
\<close>

function scanLoop ::
  "node list \<Rightarrow> DiagnosticSeverity \<Rightarrow> real \<Rightarrow> (int \<Rightarrow> 'p) \<Rightarrow> jsstring \<Rightarrow>
   nat \<Rightarrow> int \<Rightarrow> 'p Diagnostic list \<Rightarrow> 'p Diagnostic list" where
  "scanLoop p sev limit positionAt text lastIndex problems diagnostics =
     (case exec p text lastIndex of
        (None, _) \<Rightarrow> diagnostics
      | (Some m, lastIndex') \<Rightarrow>
          if real_of_int problems < limit
          then scanLoop p sev limit positionAt text lastIndex' (problems + 1)
                 (diagnostics @ [mkDiagnostic sev positionAt m])
          else diagnostics)"
  by pat_completeness auto
termination
  by (relation "measure (\<lambda>(p, sev, limit, positionAt, text, lastIndex, problems, diagnostics).
        nat \<lceil>limit - real_of_int problems\<rceil>)")
     (auto simp: diff_diff_eq[symmetric] less_ceiling_iff)

declare scanLoop.simps [simp del]

section \<open>The server state\<close>

text \<open>
  \<^verbatim>\<open>ExampleSettings\<close>: the one option \<^verbatim>\<open>maxNumberOfProblems\<close>, of the type
  \<^verbatim>\<open>number\<close>. The server takes the value as the client sends it and checks
  nothing about it, so it is any finite number: negative or not, whole or not.
  (Configuration travels as JSON, which has neither NaN nor an infinity.)
\<close>

record ExampleSettings =
  maxNumberOfProblems :: real

definition defaultSettings :: ExampleSettings where
  "defaultSettings = \<lparr>maxNumberOfProblems = 1000\<rparr>"

text \<open>
  A text document of the document manager: its URI and its current content
  (\<^verbatim>\<open>textDocument.uri\<close>, \<^verbatim>\<open>textDocument.getText()\<close>).
\<close>

record TextDocument =
  uri :: string
  getText :: jsstring

text \<open>
  The module-level variables of \<^verbatim>\<open>server.ts\<close>. \<open>documentSettings\<close> is the
  \<^verbatim>\<open>Map\<close> from a URI to the settings requested for it; a pending request is
  represented by the settings it resolves to. \<open>documents\<close> is the content of the
  document manager \<^verbatim>\<open>documents\<close>, in insertion order.
\<close>

record ServerState =
  hasConfigurationCapability :: bool
  hasWorkspaceFolderCapability :: bool
  hasDiagnosticRelatedInformationCapability :: bool
  globalSettings :: ExampleSettings
  documentSettings :: "string \<rightharpoonup> ExampleSettings"
  documents :: "TextDocument list"

definition initialState :: ServerState where
  "initialState =
     \<lparr>hasConfigurationCapability = False,
      hasWorkspaceFolderCapability = False,
      hasDiagnosticRelatedInformationCapability = False,
      globalSettings = defaultSettings,
      documentSettings = Map.empty,
      documents = []\<rparr>"

text \<open>
  What \<^verbatim>\<open>connection.onInitialize\<close> reads of the client's capabilities: whether
  \<^verbatim>\<open>workspace.configuration\<close>, \<^verbatim>\<open>workspace.workspaceFolders\<close> and
  \<^verbatim>\<open>textDocument.publishDiagnostics.relatedInformation\<close> are present and truthy.
\<close>

record ClientCapabilities =
  workspace_configuration :: bool
  workspace_workspaceFolders :: bool
  publishDiagnostics_relatedInformation :: bool

definition onInitialize :: "ClientCapabilities \<Rightarrow> ServerState \<Rightarrow> ServerState" where
  "onInitialize capabilities s =
     s\<lparr>hasConfigurationCapability := workspace_configuration capabilities,
       hasWorkspaceFolderCapability := workspace_workspaceFolders capabilities,
       hasDiagnosticRelatedInformationCapability :=
         publishDiagnostics_relatedInformation capabilities\<rparr>"

text \<open>
  \<^verbatim>\<open>getDocumentSettings\<close>. \<open>getConfiguration\<close> stands for the client's answer to
  \<^verbatim>\<open>connection.workspace.getConfiguration\<close> for a scope URI at the time of the
  call. The result is the settings and the state with the cache written.
\<close>

definition getDocumentSettings ::
  "(string \<Rightarrow> ExampleSettings) \<Rightarrow> string \<Rightarrow> ServerState \<Rightarrow> ExampleSettings \<times> ServerState" where
  "getDocumentSettings getConfiguration resource s =
     (if \<not> hasConfigurationCapability s then (globalSettings s, s)
      else case documentSettings s resource of
             Some result \<Rightarrow> (result, s)
           | None \<Rightarrow>
               (let result = getConfiguration resource
                in (result, s\<lparr>documentSettings := (documentSettings s)(resource \<mapsto> result)\<rparr>)))"

text \<open>\<^verbatim>\<open>documents.onDidClose\<close>: \<^verbatim>\<open>documentSettings.delete(e.document.uri)\<close>.\<close>

definition onDidClose :: "TextDocument \<Rightarrow> ServerState \<Rightarrow> ServerState" where
  "onDidClose document s = s\<lparr>documentSettings := (documentSettings s)(uri document := None)\<rparr>"

text \<open>
  \<^verbatim>\<open>documents.onDidChangeContent\<close>: the settings are fetched and not used; the
  operator pattern is scanned with the bound 1000; the result is the argument of
  \<^verbatim>\<open>connection.sendDiagnostics\<close> and the new state. \<open>positionAt\<close> is the
  document's \<^verbatim>\<open>positionAt\<close> method. The \<^verbatim>\<open>console.log(m)\<close> of the loop body
  writes to the console and nothing else.
\<close>

definition onDidChangeContent ::
  "(string \<Rightarrow> ExampleSettings) \<Rightarrow> (TextDocument \<Rightarrow> int \<Rightarrow> 'p) \<Rightarrow> TextDocument \<Rightarrow> ServerState \<Rightarrow>
   (string \<times> 'p Diagnostic list) \<times> ServerState" where
  "onDidChangeContent getConfiguration positionAt textDocument s =
     (let (settings, s') = getDocumentSettings getConfiguration (uri textDocument) s;
          text = getText textDocument;
          diagnostics =
            scanLoop operatorPattern Error 1000 (positionAt textDocument) text 0 0 []
      in ((uri textDocument, diagnostics), s'))"

text \<open>
  \<^verbatim>\<open>validateTextDocument\<close>: the upper-case pattern is scanned with the bound
  \<^verbatim>\<open>settings.maxNumberOfProblems\<close>.
\<close>

definition validateTextDocument ::
  "(string \<Rightarrow> ExampleSettings) \<Rightarrow> (TextDocument \<Rightarrow> int \<Rightarrow> 'p) \<Rightarrow> TextDocument \<Rightarrow> ServerState \<Rightarrow>
   (string \<times> 'p Diagnostic list) \<times> ServerState" where
  "validateTextDocument getConfiguration positionAt textDocument s =
     (let (settings, s') = getDocumentSettings getConfiguration (uri textDocument) s;
          text = getText textDocument;
          diagnostics =
            scanLoop upperCasePattern Warning (maxNumberOfProblems settings)
              (positionAt textDocument) text 0 0 []
      in ((uri textDocument, diagnostics), s'))"

text \<open>\<^verbatim>\<open>documents.all().forEach(validateTextDocument)\<close>\<close>

fun validateAll ::
  "(string \<Rightarrow> ExampleSettings) \<Rightarrow> (TextDocument \<Rightarrow> int \<Rightarrow> 'p) \<Rightarrow> TextDocument list \<Rightarrow> ServerState \<Rightarrow>
   (string \<times> 'p Diagnostic list) list \<times> ServerState" where
  "validateAll getConfiguration positionAt [] s = ([], s)"
| "validateAll getConfiguration positionAt (d # ds) s =
     (let (sent, s') = validateTextDocument getConfiguration positionAt d s;
          (rest, s'') = validateAll getConfiguration positionAt ds s'
      in (sent # rest, s''))"

text \<open>
  \<^verbatim>\<open>connection.onDidChangeConfiguration\<close>. \<open>change\<close> is
  \<^verbatim>\<open>change.settings.languageServerExample\<close>, \<open>None\<close> when it is missing.
\<close>

definition onDidChangeConfiguration ::
  "(string \<Rightarrow> ExampleSettings) \<Rightarrow> (TextDocument \<Rightarrow> int \<Rightarrow> 'p) \<Rightarrow> ExampleSettings option \<Rightarrow>
   ServerState \<Rightarrow> (string \<times> 'p Diagnostic list) list \<times> ServerState" where
  "onDidChangeConfiguration getConfiguration positionAt change s =
     (let s' = (if hasConfigurationCapability s
                then s\<lparr>documentSettings := Map.empty\<rparr>
                else s\<lparr>globalSettings :=
                        (case change of Some settings \<Rightarrow> settings | None \<Rightarrow> defaultSettings)\<rparr>)
      in validateAll getConfiguration positionAt (documents s') s')"

section \<open>The document manager and the notifications\<close>

text \<open>
  \<^verbatim>\<open>documents.listen(connection)\<close> hands the synchronisation of documents to the
  document manager of the language server library. What the server relies on: opening
  stores the document and fires \<^verbatim>\<open>onDidChangeContent\<close>; a change of an open
  document stores the new content and fires \<^verbatim>\<open>onDidChangeContent\<close>; closing an
  open document removes it and fires \<^verbatim>\<open>onDidClose\<close>.
\<close>

fun setDocument :: "TextDocument \<Rightarrow> TextDocument list \<Rightarrow> TextDocument list" where
  "setDocument d [] = [d]"
| "setDocument d (x # xs) = (if uri x = uri d then d # xs else x # setDocument d xs)"

definition deleteDocument :: "string \<Rightarrow> TextDocument list \<Rightarrow> TextDocument list" where
  "deleteDocument u ds = filter (\<lambda>d. uri d \<noteq> u) ds"

datatype Notification =
    DidOpenTextDocument TextDocument
  | DidChangeTextDocument TextDocument
  | DidCloseTextDocument TextDocument
  | DidChangeConfiguration "ExampleSettings option"

fun handleNotification ::
  "(string \<Rightarrow> ExampleSettings) \<Rightarrow> (TextDocument \<Rightarrow> int \<Rightarrow> 'p) \<Rightarrow> Notification \<Rightarrow> ServerState \<Rightarrow>
   (string \<times> 'p Diagnostic list) list \<times> ServerState" where
  "handleNotification getConfiguration positionAt (DidOpenTextDocument d) s =
     (let (sent, s') = onDidChangeContent getConfiguration positionAt d
                         (s\<lparr>documents := setDocument d (documents s)\<rparr>)
      in ([sent], s'))"
| "handleNotification getConfiguration positionAt (DidChangeTextDocument d) s =
     (if uri d \<in> uri ` set (documents s)
      then let (sent, s') = onDidChangeContent getConfiguration positionAt d
                              (s\<lparr>documents := setDocument d (documents s)\<rparr>)
           in ([sent], s')
      else ([], s))"
| "handleNotification getConfiguration positionAt (DidCloseTextDocument d) s =
     (if uri d \<in> uri ` set (documents s)
      then ([], onDidClose d (s\<lparr>documents := deleteDocument (uri d) (documents s)\<rparr>))
      else ([], s))"
| "handleNotification getConfiguration positionAt (DidChangeConfiguration change) s =
     onDidChangeConfiguration getConfiguration positionAt change s"

text \<open>
  The open documents are those of the document manager; the invariant that the spec
  states for the settings cache.
\<close>

definition openUris :: "ServerState \<Rightarrow> string set" where
  "openUris s = uri ` set (documents s)"

definition cacheMatchesOpen :: "ServerState \<Rightarrow> bool" where
  "cacheMatchesOpen s \<longleftrightarrow> dom (documentSettings s) = openUris s"

section \<open>What the spec calls a text without findings\<close>

text \<open>
  The two conditions in the words of the spec. A run of two or more upper-case letters
  is two neighbouring letters from A to Z. An operator character surrounded by single
  spaces is one of the operators \<^verbatim>\<open>>\<close>, \<^verbatim>\<open><\<close>, \<^verbatim>\<open>+\<close>, \<^verbatim>\<open>-\<close>, \<^verbatim>\<open>*\<close>, U+2192,
  U+2264, U+2265, U+2260 with the space character U+0020 directly before it and
  directly after it.
\<close>

definition specOperators :: charclass where
  "specOperators = [(62, 62), (60, 60), (43, 43), (45, 45), (42, 42),
     (8594, 8594), (8804, 8804), (8805, 8805), (8800, 8800)]"

fun hasUpperCaseRun :: "jsstring \<Rightarrow> bool" where
  "hasUpperCaseRun (a # b # t) =
     (inClass upperCase a \<and> inClass upperCase b \<or> hasUpperCaseRun (b # t))"
| "hasUpperCaseRun t = False"

fun hasSpacedOperator :: "jsstring \<Rightarrow> bool" where
  "hasSpacedOperator (a # b # c # t) =
     (a = 32 \<and> inClass specOperators b \<and> c = 32 \<or> hasSpacedOperator (b # c # t))"
| "hasSpacedOperator t = False"

text \<open>
  What the operator pattern of the source looks for, without its two \<^verbatim>\<open>\b\<close>: a
  member of its class, the bar included, directly between two characters that
  \<^verbatim>\<open>\s\<close> accepts (a space, a tab, a line break, and the others).
\<close>

fun hasClassMemberInWhiteSpace :: "jsstring \<Rightarrow> bool" where
  "hasClassMemberInWhiteSpace (a # b # c # t) =
     (inClass whiteSpace a \<and> inClass operatorChars b \<and> inClass whiteSpace c \<or>
      hasClassMemberInWhiteSpace (b # c # t))"
| "hasClassMemberInWhiteSpace t = False"

section \<open>Stand-ins for the client and the text document library\<close>

text \<open>A client that answers every configuration request with the same settings.\<close>

definition constantClient :: "ExampleSettings \<Rightarrow> string \<Rightarrow> ExampleSettings" where
  "constantClient settings resource = settings"

text \<open>
  A \<^verbatim>\<open>positionAt\<close> that returns the offset it is given, so that a diagnostic
  shows the two offsets the server computed.
\<close>

definition offsetAt :: "TextDocument \<Rightarrow> int \<Rightarrow> int" where
  "offsetAt document offset = offset"

section \<open>The text document library's \<^verbatim>\<open>positionAt\<close>\<close>

text \<open>
  \<^verbatim>\<open>TextDocument.positionAt\<close> is a method of the library
  \<^verbatim>\<open>vscode-languageserver-textdocument\<close>, which the server imports; its code is not
  in the repository. Modelled from the library's documentation: the method converts a
  zero-based offset to a valid position, a line and a character, both counted from 0.
  An offset outside the text is first brought into the range from 0 to the length of
  the text. A line starts at offset 0 and after every line break (a carriage return, a
  line feed, or the two together); the position's line is the last line that starts
  at or before the offset, and its character is the distance from that start.
\<close>

record Position =
  line :: nat
  character :: nat

definition isEOL :: "nat \<Rightarrow> bool" where
  "isEOL c \<longleftrightarrow> c = 13 \<or> c = 10"

fun lineOffsetsFrom :: "nat \<Rightarrow> jsstring \<Rightarrow> nat list" where
  "lineOffsetsFrom i [] = []"
| "lineOffsetsFrom i [c] = (if isEOL c then [i + 1] else [])"
| "lineOffsetsFrom i (c # d # cs) =
     (if c = 13 \<and> d = 10 then (i + 2) # lineOffsetsFrom (i + 2) cs
      else if isEOL c then (i + 1) # lineOffsetsFrom (i + 1) (d # cs)
      else lineOffsetsFrom (i + 1) (d # cs))"

definition getLineOffsets :: "jsstring \<Rightarrow> nat list" where
  "getLineOffsets content = 0 # lineOffsetsFrom 0 content"

definition positionAt :: "TextDocument \<Rightarrow> int \<Rightarrow> Position" where
  "positionAt document offset =
     (let clamped = nat (max (min offset (int (length (getText document)))) 0);
          lineOffsets = getLineOffsets (getText document);
          low = length (takeWhile (\<lambda>start. start \<le> clamped) lineOffsets);
          line = low - 1
      in \<lparr>line = line, character = clamped - lineOffsets ! line\<rparr>)"

section \<open>Completion\<close>

datatype CompletionItemKind =
    Text | Method | Function | Constructor | Field | Variable | Class | Interface
  | Module | Property | Unit | Value | Enum | Keyword | Snippet | Color | File
  | Reference | Folder | EnumMember | Constant | Struct | Event | Operator
  | TypeParameter

record CompletionItem =
  label :: jsstring
  kind :: CompletionItemKind

record TextDocumentPositionParams =
  textDocument :: string
  position :: "nat \<times> nat"

text \<open>
  The array literal that \<^verbatim>\<open>connection.onCompletion\<close> returns, in the order of
  the source, cut into eight parts. The labels outside ASCII contain the code units
  U+25B6 (9654), U+25BA (9658), U+03A3 (931), U+2211 (8721), U+2206 (8710) and
  U+03B8 (952).
\<close>

definition completionItems1 :: "CompletionItem list" where
  "completionItems1 =
    [\<lparr>label = js ''abs'', kind = Function\<rparr>,
     \<lparr>label = js ''and'', kind = Function\<rparr>,
     \<lparr>label = js ''angle'', kind = Function\<rparr>,
     \<lparr>label = js ''ANOVA'', kind = Function\<rparr>,
     \<lparr>label = js ''Ans'', kind = Function\<rparr>,
     \<lparr>label = js ''Archive'', kind = Function\<rparr>,
     \<lparr>label = js ''Asm'', kind = Function\<rparr>,
     \<lparr>label = js ''AsmComp'', kind = Function\<rparr>,
     \<lparr>label = js ''AsmPrgm'', kind = Function\<rparr>,
     \<lparr>label = js ''augment'', kind = Function\<rparr>,
     \<lparr>label = js ''AxesOff'', kind = Function\<rparr>,
     \<lparr>label = js ''AxesOn'', kind = Function\<rparr>,
     \<lparr>label = js ''a+bi'', kind = Function\<rparr>,
     \<lparr>label = js ''bal'', kind = Function\<rparr>,
     \<lparr>label = js ''binomcdf'', kind = Function\<rparr>,
     \<lparr>label = js ''binompdf'', kind = Function\<rparr>,
     \<lparr>label = js ''Boxplot'', kind = Function\<rparr>,
     \<lparr>label = js ''checkTmr'', kind = Function\<rparr>,
     \<lparr>label = js ''x2cdf'', kind = Function\<rparr>,
     \<lparr>label = js ''x2pdf'', kind = Function\<rparr>,
     \<lparr>label = js ''x2-Test'', kind = Function\<rparr>,
     \<lparr>label = js ''Circle'', kind = Function\<rparr>,
     \<lparr>label = js ''Clear'', kind = Function\<rparr>,
     \<lparr>label = js ''ClockOff'', kind = Function\<rparr>,
     \<lparr>label = js ''ClockOn'', kind = Function\<rparr>,
     \<lparr>label = js ''ClrAllLists'', kind = Function\<rparr>,
     \<lparr>label = js ''ClrDraw'', kind = Function\<rparr>,
     \<lparr>label = js ''ClrHome'', kind = Function\<rparr>,
     \<lparr>label = js ''ClrList'', kind = Function\<rparr>,
     \<lparr>label = js ''ClrTable'', kind = Function\<rparr>,
     \<lparr>label = js ''conj'', kind = Function\<rparr>,
     \<lparr>label = js ''Connected'', kind = Function\<rparr>,
     \<lparr>label = js ''CoordOff'', kind = Function\<rparr>,
     \<lparr>label = js ''CoordOn'', kind = Function\<rparr>,
     \<lparr>label = js ''cos'', kind = Function\<rparr>,
     \<lparr>label = js ''cos-1'', kind = Function\<rparr>,
     \<lparr>label = js ''cosh'', kind = Function\<rparr>,
     \<lparr>label = js ''cosh-1'', kind = Function\<rparr>,
     \<lparr>label = js ''CubicReg'', kind = Function\<rparr>,
     \<lparr>label = js ''cumSum'', kind = Function\<rparr>,
     \<lparr>label = js ''dayOfWk'', kind = Function\<rparr>,
     \<lparr>label = js ''dbd'', kind = Function\<rparr>,
     \<lparr>label = [9654] @ js ''Dec'', kind = Function\<rparr>,
     \<lparr>label = js ''Degree'', kind = Function\<rparr>,
     \<lparr>label = js ''DependAsk'', kind = Function\<rparr>,
     \<lparr>label = js ''DependAuto'', kind = Function\<rparr>,
     \<lparr>label = js ''det'', kind = Function\<rparr>,
     \<lparr>label = js ''DiagnosticOff'', kind = Function\<rparr>,
     \<lparr>label = js ''DiagnosticOn'', kind = Function\<rparr>,
     \<lparr>label = js ''dim'', kind = Function\<rparr>,
     \<lparr>label = js ''Disp'', kind = Function\<rparr>,
     \<lparr>label = js ''DispGraph'', kind = Function\<rparr>,
     \<lparr>label = js ''DispTable'', kind = Function\<rparr>]"

definition completionItems2 :: "CompletionItem list" where
  "completionItems2 =
    [\<lparr>label = [9654] @ js ''DMS'', kind = Function\<rparr>,
     \<lparr>label = js ''Dot'', kind = Function\<rparr>,
     \<lparr>label = js ''DrawF'', kind = Function\<rparr>,
     \<lparr>label = js ''DrawInv'', kind = Function\<rparr>,
     \<lparr>label = js ''e'', kind = Function\<rparr>,
     \<lparr>label = js ''e^'', kind = Function\<rparr>,
     \<lparr>label = js ''E'', kind = Function\<rparr>,
     \<lparr>label = [9654] @ js ''Eff'', kind = Function\<rparr>,
     \<lparr>label = js ''Eng'', kind = Function\<rparr>,
     \<lparr>label = js ''Equ'' @ [9654] @ js ''String'', kind = Function\<rparr>,
     \<lparr>label = js ''expr'', kind = Function\<rparr>,
     \<lparr>label = js ''ExprOff'', kind = Function\<rparr>,
     \<lparr>label = js ''ExprOn'', kind = Function\<rparr>,
     \<lparr>label = js ''Fcdf'', kind = Function\<rparr>,
     \<lparr>label = js ''Fill'', kind = Function\<rparr>,
     \<lparr>label = js ''Fix'', kind = Function\<rparr>,
     \<lparr>label = js ''Float'', kind = Function\<rparr>,
     \<lparr>label = js ''fMax'', kind = Function\<rparr>,
     \<lparr>label = js ''fMin'', kind = Function\<rparr>,
     \<lparr>label = js ''fnInt'', kind = Function\<rparr>,
     \<lparr>label = js ''FnOff'', kind = Function\<rparr>,
     \<lparr>label = js ''FnOn'', kind = Function\<rparr>,
     \<lparr>label = js ''fPart'', kind = Function\<rparr>,
     \<lparr>label = js ''Fpdf'', kind = Function\<rparr>,
     \<lparr>label = [9654] @ js ''Frac'', kind = Function\<rparr>,
     \<lparr>label = js ''Full'', kind = Function\<rparr>,
     \<lparr>label = js ''Func'', kind = Function\<rparr>,
     \<lparr>label = js ''GarbageCollect'', kind = Function\<rparr>,
     \<lparr>label = js ''gcd'', kind = Function\<rparr>,
     \<lparr>label = js ''geometcdf'', kind = Function\<rparr>,
     \<lparr>label = js ''geometpdf'', kind = Function\<rparr>,
     \<lparr>label = js ''Get'', kind = Function\<rparr>,
     \<lparr>label = js ''GetCalc'', kind = Function\<rparr>,
     \<lparr>label = js ''GetDate'', kind = Function\<rparr>,
     \<lparr>label = js ''getDtFmt'', kind = Function\<rparr>,
     \<lparr>label = js ''getDtStr'', kind = Function\<rparr>,
     \<lparr>label = js ''GetTime'', kind = Function\<rparr>,
     \<lparr>label = js ''getTmFmt'', kind = Function\<rparr>,
     \<lparr>label = js ''getTmStr'', kind = Function\<rparr>,
     \<lparr>label = js ''getKey'', kind = Function\<rparr>,
     \<lparr>label = js ''GridOff'', kind = Function\<rparr>,
     \<lparr>label = js ''GridOn'', kind = Function\<rparr>,
     \<lparr>label = js ''G-T'', kind = Function\<rparr>,
     \<lparr>label = js ''Histogram'', kind = Function\<rparr>,
     \<lparr>label = js ''Horiz'', kind = Function\<rparr>,
     \<lparr>label = js ''Horizontal'', kind = Function\<rparr>,
     \<lparr>label = js ''i'', kind = Function\<rparr>,
     \<lparr>label = js ''identity'', kind = Function\<rparr>,
     \<lparr>label = js ''imag'', kind = Function\<rparr>,
     \<lparr>label = js ''IndpntAsk'', kind = Function\<rparr>,
     \<lparr>label = js ''IndpntAuto'', kind = Function\<rparr>,
     \<lparr>label = js ''Input'', kind = Function\<rparr>,
     \<lparr>label = js ''inString'', kind = Function\<rparr>]"

definition completionItems3 :: "CompletionItem list" where
  "completionItems3 =
    [\<lparr>label = js ''int'', kind = Function\<rparr>,
     \<lparr>label = [931] @ js ''Int'', kind = Function\<rparr>,
     \<lparr>label = js ''intersect'', kind = Function\<rparr>,
     \<lparr>label = js ''invNorm'', kind = Function\<rparr>,
     \<lparr>label = js ''iPart'', kind = Function\<rparr>,
     \<lparr>label = js ''irr'', kind = Function\<rparr>,
     \<lparr>label = js ''isClockOn'', kind = Function\<rparr>,
     \<lparr>label = js ''L'', kind = Function\<rparr>,
     \<lparr>label = js ''LabelOff'', kind = Function\<rparr>,
     \<lparr>label = js ''LabelOn'', kind = Function\<rparr>,
     \<lparr>label = js ''lcm'', kind = Function\<rparr>,
     \<lparr>label = js ''length'', kind = Function\<rparr>,
     \<lparr>label = js ''Line'', kind = Function\<rparr>,
     \<lparr>label = js ''LinReg'', kind = Function\<rparr>,
     \<lparr>label = js ''LinReg'', kind = Function\<rparr>,
     \<lparr>label = js ''LinRegTTest'', kind = Function\<rparr>,
     \<lparr>label = [8710] @ js ''List'', kind = Function\<rparr>,
     \<lparr>label = js ''List'' @ [9654] @ js ''matr'', kind = Function\<rparr>,
     \<lparr>label = js ''ln'', kind = Function\<rparr>,
     \<lparr>label = js ''LnReg'', kind = Function\<rparr>,
     \<lparr>label = js ''log'', kind = Function\<rparr>,
     \<lparr>label = js ''Logistic'', kind = Function\<rparr>,
     \<lparr>label = js ''Matr'' @ [9654] @ js ''list'', kind = Function\<rparr>,
     \<lparr>label = js ''max'', kind = Function\<rparr>,
     \<lparr>label = js ''mean'', kind = Function\<rparr>,
     \<lparr>label = js ''median'', kind = Function\<rparr>,
     \<lparr>label = js ''Med-Med'', kind = Function\<rparr>,
     \<lparr>label = js ''min'', kind = Function\<rparr>,
     \<lparr>label = js ''ModBoxplot'', kind = Function\<rparr>,
     \<lparr>label = js ''nCr'', kind = Function\<rparr>,
     \<lparr>label = js ''nDeriv'', kind = Function\<rparr>,
     \<lparr>label = [9654] @ js ''Nom'', kind = Function\<rparr>,
     \<lparr>label = js ''Normal'', kind = Function\<rparr>,
     \<lparr>label = js ''normalcdf'', kind = Function\<rparr>,
     \<lparr>label = js ''normalpdf'', kind = Function\<rparr>,
     \<lparr>label = js ''NormProbPlot'', kind = Function\<rparr>,
     \<lparr>label = js ''not'', kind = Function\<rparr>,
     \<lparr>label = js ''nPr'', kind = Function\<rparr>,
     \<lparr>label = js ''npv'', kind = Function\<rparr>,
     \<lparr>label = js ''or'', kind = Function\<rparr>,
     \<lparr>label = js ''Output'', kind = Function\<rparr>,
     \<lparr>label = js ''Param'', kind = Function\<rparr>,
     \<lparr>label = js ''Plot1'', kind = Function\<rparr>,
     \<lparr>label = js ''Plot2'', kind = Function\<rparr>,
     \<lparr>label = js ''Plot3'', kind = Function\<rparr>,
     \<lparr>label = js ''PlotsOff'', kind = Function\<rparr>,
     \<lparr>label = js ''PlotsOn'', kind = Function\<rparr>,
     \<lparr>label = js ''Pmt_Bgn'', kind = Function\<rparr>,
     \<lparr>label = js ''Pmt_End'', kind = Function\<rparr>,
     \<lparr>label = js ''poissoncdf'', kind = Function\<rparr>,
     \<lparr>label = js ''poissonpdf'', kind = Function\<rparr>,
     \<lparr>label = js ''Polar'', kind = Function\<rparr>,
     \<lparr>label = [9654] @ js ''Polar'', kind = Function\<rparr>]"

definition completionItems4 :: "CompletionItem list" where
  "completionItems4 =
    [\<lparr>label = js ''PolarGC'', kind = Function\<rparr>,
     \<lparr>label = [8721] @ js ''Prn'', kind = Function\<rparr>,
     \<lparr>label = js ''prod'', kind = Function\<rparr>,
     \<lparr>label = js ''Prompt'', kind = Function\<rparr>,
     \<lparr>label = js ''1-PropZInt'', kind = Function\<rparr>,
     \<lparr>label = js ''2-PropZInt'', kind = Function\<rparr>,
     \<lparr>label = js ''1-PropZTest'', kind = Function\<rparr>,
     \<lparr>label = js ''2-PropZTest'', kind = Function\<rparr>,
     \<lparr>label = js ''Pt-Change'', kind = Function\<rparr>,
     \<lparr>label = js ''Pt-Off'', kind = Function\<rparr>,
     \<lparr>label = js ''Pt-On'', kind = Function\<rparr>,
     \<lparr>label = js ''PwrReg'', kind = Function\<rparr>,
     \<lparr>label = js ''Pxl-Change'', kind = Function\<rparr>,
     \<lparr>label = js ''Pxl-Off'', kind = Function\<rparr>,
     \<lparr>label = js ''Pxl-On'', kind = Function\<rparr>,
     \<lparr>label = js ''Pxl-Test'', kind = Function\<rparr>,
     \<lparr>label = js ''P'' @ [9654] @ js ''Rx'', kind = Function\<rparr>,
     \<lparr>label = js ''P'' @ [9654] @ js ''Ry'', kind = Function\<rparr>,
     \<lparr>label = js ''QuadReg'', kind = Function\<rparr>,
     \<lparr>label = js ''QuartReg'', kind = Function\<rparr>,
     \<lparr>label = js ''Radian'', kind = Function\<rparr>,
     \<lparr>label = js ''rand'', kind = Function\<rparr>,
     \<lparr>label = js ''randBin'', kind = Function\<rparr>,
     \<lparr>label = js ''randInt'', kind = Function\<rparr>,
     \<lparr>label = js ''randM'', kind = Function\<rparr>,
     \<lparr>label = js ''randNorm'', kind = Function\<rparr>,
     \<lparr>label = js ''re^'' @ [952] @ js ''i'', kind = Function\<rparr>,
     \<lparr>label = js ''Real'', kind = Function\<rparr>,
     \<lparr>label = js ''real'', kind = Function\<rparr>,
     \<lparr>label = js ''RecallGDB'', kind = Function\<rparr>,
     \<lparr>label = js ''RecallPic'', kind = Function\<rparr>,
     \<lparr>label = [9654] @ js ''Rect'', kind = Function\<rparr>,
     \<lparr>label = js ''RectGC'', kind = Function\<rparr>,
     \<lparr>label = js ''ref'', kind = Function\<rparr>,
     \<lparr>label = js ''round'', kind = Function\<rparr>,
     \<lparr>label = js ''*row'', kind = Function\<rparr>,
     \<lparr>label = js ''row'', kind = Function\<rparr>,
     \<lparr>label = js ''row+'', kind = Function\<rparr>,
     \<lparr>label = js ''*row+'', kind = Function\<rparr>,
     \<lparr>label = js ''row+'', kind = Function\<rparr>,
     \<lparr>label = js ''rowSwap'', kind = Function\<rparr>,
     \<lparr>label = js ''rref'', kind = Function\<rparr>,
     \<lparr>label = js ''R'' @ [9654] @ js ''Pr'', kind = Function\<rparr>,
     \<lparr>label = js ''R'' @ [9654] @ js ''P'' @ [952], kind = Function\<rparr>,
     \<lparr>label = js ''2-SampFTest'', kind = Function\<rparr>,
     \<lparr>label = js ''2-SampTInt'', kind = Function\<rparr>,
     \<lparr>label = js ''2-SampTTest'', kind = Function\<rparr>,
     \<lparr>label = js ''2-SampZInt'', kind = Function\<rparr>,
     \<lparr>label = js ''2-SampZTest'', kind = Function\<rparr>,
     \<lparr>label = js ''Scatter'', kind = Function\<rparr>,
     \<lparr>label = js ''Sci'', kind = Function\<rparr>,
     \<lparr>label = js ''Select'', kind = Function\<rparr>,
     \<lparr>label = js ''Send'', kind = Function\<rparr>]"

definition completionItems5 :: "CompletionItem list" where
  "completionItems5 =
    [\<lparr>label = js ''seq'', kind = Function\<rparr>,
     \<lparr>label = js ''Seq'', kind = Function\<rparr>,
     \<lparr>label = js ''Sequential'', kind = Function\<rparr>,
     \<lparr>label = js ''setDate'', kind = Function\<rparr>,
     \<lparr>label = js ''setDtFmt'', kind = Function\<rparr>,
     \<lparr>label = js ''setTime'', kind = Function\<rparr>,
     \<lparr>label = js ''setTmFmt'', kind = Function\<rparr>,
     \<lparr>label = js ''SetUpEditor'', kind = Function\<rparr>,
     \<lparr>label = js ''Shade'', kind = Function\<rparr>,
     \<lparr>label = js ''Shadex2'', kind = Function\<rparr>,
     \<lparr>label = js ''ShadeF'', kind = Function\<rparr>,
     \<lparr>label = js ''ShadeNorm'', kind = Function\<rparr>,
     \<lparr>label = js ''Shade_t'', kind = Function\<rparr>,
     \<lparr>label = js ''Simul'', kind = Function\<rparr>,
     \<lparr>label = js ''sin'', kind = Function\<rparr>,
     \<lparr>label = js ''sin-1'', kind = Function\<rparr>,
     \<lparr>label = js ''sinh'', kind = Function\<rparr>,
     \<lparr>label = js ''sinh-1'', kind = Function\<rparr>,
     \<lparr>label = js ''SinReg'', kind = Function\<rparr>,
     \<lparr>label = js ''solve'', kind = Function\<rparr>,
     \<lparr>label = js ''SortA'', kind = Function\<rparr>,
     \<lparr>label = js ''SortD'', kind = Function\<rparr>,
     \<lparr>label = js ''startTmr'', kind = Function\<rparr>,
     \<lparr>label = js ''stdDev'', kind = Function\<rparr>,
     \<lparr>label = js ''StoreGDB'', kind = Function\<rparr>,
     \<lparr>label = js ''StorePic'', kind = Function\<rparr>,
     \<lparr>label = js ''String'' @ [9658] @ js ''Equ'', kind = Function\<rparr>,
     \<lparr>label = js ''sub'', kind = Function\<rparr>,
     \<lparr>label = js ''sum'', kind = Function\<rparr>,
     \<lparr>label = js ''tan'', kind = Function\<rparr>,
     \<lparr>label = js ''tan-1'', kind = Function\<rparr>,
     \<lparr>label = js ''Tangent'', kind = Function\<rparr>,
     \<lparr>label = js ''tanh'', kind = Function\<rparr>,
     \<lparr>label = js ''tanh-1'', kind = Function\<rparr>,
     \<lparr>label = js ''tcdf'', kind = Function\<rparr>,
     \<lparr>label = js ''Text'', kind = Function\<rparr>,
     \<lparr>label = js ''Time'', kind = Function\<rparr>,
     \<lparr>label = js ''timeCnv'', kind = Function\<rparr>,
     \<lparr>label = js ''TInterval'', kind = Function\<rparr>,
     \<lparr>label = js ''tpdf'', kind = Function\<rparr>,
     \<lparr>label = js ''T-Test'', kind = Function\<rparr>,
     \<lparr>label = js ''tmv_FV'', kind = Function\<rparr>,
     \<lparr>label = js ''tmv_I%'', kind = Function\<rparr>,
     \<lparr>label = js ''tmv_N'', kind = Function\<rparr>,
     \<lparr>label = js ''tmv_Pmt'', kind = Function\<rparr>,
     \<lparr>label = js ''tmv_PV'', kind = Function\<rparr>,
     \<lparr>label = js ''UnArchive'', kind = Function\<rparr>,
     \<lparr>label = js ''uvAxes'', kind = Function\<rparr>,
     \<lparr>label = js ''uwAxes'', kind = Function\<rparr>,
     \<lparr>label = js ''1-Var'', kind = Function\<rparr>,
     \<lparr>label = js ''2-Var'', kind = Function\<rparr>,
     \<lparr>label = js ''variance'', kind = Function\<rparr>,
     \<lparr>label = js ''Vertical'', kind = Function\<rparr>]"

definition completionItems6 :: "CompletionItem list" where
  "completionItems6 =
    [\<lparr>label = js ''vwAxes'', kind = Function\<rparr>,
     \<lparr>label = js ''Web'', kind = Function\<rparr>,
     \<lparr>label = js ''xor'', kind = Function\<rparr>,
     \<lparr>label = js ''xyLine'', kind = Function\<rparr>,
     \<lparr>label = js ''ZBox'', kind = Function\<rparr>,
     \<lparr>label = js ''ZDecimal'', kind = Function\<rparr>,
     \<lparr>label = js ''ZInteger'', kind = Function\<rparr>,
     \<lparr>label = js ''ZInterval'', kind = Function\<rparr>,
     \<lparr>label = js ''Zoom'', kind = Function\<rparr>,
     \<lparr>label = js ''Zoom'', kind = Function\<rparr>,
     \<lparr>label = js ''ZoomFit'', kind = Function\<rparr>,
     \<lparr>label = js ''ZoomRcl'', kind = Function\<rparr>,
     \<lparr>label = js ''ZoomStat'', kind = Function\<rparr>,
     \<lparr>label = js ''ZoomSto'', kind = Function\<rparr>,
     \<lparr>label = js ''ZPrevious'', kind = Function\<rparr>,
     \<lparr>label = js ''ZSquare'', kind = Function\<rparr>,
     \<lparr>label = js ''ZStandard'', kind = Function\<rparr>,
     \<lparr>label = js ''Z-Test'', kind = Function\<rparr>,
     \<lparr>label = js ''ZTrig'', kind = Function\<rparr>,
     \<lparr>label = js ''Input'', kind = Function\<rparr>,
     \<lparr>label = js ''Prompt'', kind = Function\<rparr>,
     \<lparr>label = js ''Disp'', kind = Function\<rparr>,
     \<lparr>label = js ''DispGraph'', kind = Function\<rparr>,
     \<lparr>label = js ''DispTable'', kind = Function\<rparr>,
     \<lparr>label = js ''If'', kind = Keyword\<rparr>,
     \<lparr>label = js ''Then'', kind = Keyword\<rparr>,
     \<lparr>label = js ''Else'', kind = Keyword\<rparr>,
     \<lparr>label = js ''For'', kind = Keyword\<rparr>,
     \<lparr>label = js ''While'', kind = Keyword\<rparr>,
     \<lparr>label = js ''Repeat'', kind = Keyword\<rparr>,
     \<lparr>label = js ''End'', kind = Keyword\<rparr>,
     \<lparr>label = js ''Pause'', kind = Keyword\<rparr>,
     \<lparr>label = js ''Lbl'', kind = Keyword\<rparr>,
     \<lparr>label = js ''Goto'', kind = Keyword\<rparr>,
     \<lparr>label = js ''Wait'', kind = Keyword\<rparr>,
     \<lparr>label = js ''IS>'', kind = Keyword\<rparr>,
     \<lparr>label = js ''DS<'', kind = Keyword\<rparr>,
     \<lparr>label = js ''Menu'', kind = Keyword\<rparr>,
     \<lparr>label = js ''prgm'', kind = Keyword\<rparr>,
     \<lparr>label = js ''Return'', kind = Keyword\<rparr>,
     \<lparr>label = js ''Stop'', kind = Keyword\<rparr>,
     \<lparr>label = js ''DelVar'', kind = Keyword\<rparr>,
     \<lparr>label = js ''GraphStyle'', kind = Keyword\<rparr>,
     \<lparr>label = js ''GraphColor'', kind = Keyword\<rparr>,
     \<lparr>label = js ''OpenLib'', kind = Keyword\<rparr>,
     \<lparr>label = js ''ExecLib'', kind = Keyword\<rparr>,
     \<lparr>label = js ''BLUE'', kind = Color\<rparr>,
     \<lparr>label = js ''RED'', kind = Color\<rparr>,
     \<lparr>label = js ''BLACK'', kind = Color\<rparr>,
     \<lparr>label = js ''MAGENTA'', kind = Color\<rparr>,
     \<lparr>label = js ''GREEN'', kind = Color\<rparr>,
     \<lparr>label = js ''ORANGE'', kind = Color\<rparr>,
     \<lparr>label = js ''BROWN'', kind = Color\<rparr>]"

definition completionItems7 :: "CompletionItem list" where
  "completionItems7 =
    [\<lparr>label = js ''NAVY'', kind = Color\<rparr>,
     \<lparr>label = js ''LTBLUE'', kind = Color\<rparr>,
     \<lparr>label = js ''YELLOW'', kind = Color\<rparr>,
     \<lparr>label = js ''LTGRAY'', kind = Color\<rparr>,
     \<lparr>label = js ''MEDGREY'', kind = Color\<rparr>,
     \<lparr>label = js ''GRAY'', kind = Color\<rparr>,
     \<lparr>label = js ''DARKGRAY'', kind = Color\<rparr>,
     \<lparr>label = js ''A'', kind = Variable\<rparr>,
     \<lparr>label = js ''B'', kind = Variable\<rparr>,
     \<lparr>label = js ''C'', kind = Variable\<rparr>,
     \<lparr>label = js ''D'', kind = Variable\<rparr>,
     \<lparr>label = js ''E'', kind = Variable\<rparr>,
     \<lparr>label = js ''F'', kind = Variable\<rparr>,
     \<lparr>label = js ''G'', kind = Variable\<rparr>,
     \<lparr>label = js ''H'', kind = Variable\<rparr>,
     \<lparr>label = js ''I'', kind = Variable\<rparr>,
     \<lparr>label = js ''J'', kind = Variable\<rparr>,
     \<lparr>label = js ''K'', kind = Variable\<rparr>,
     \<lparr>label = js ''L'', kind = Variable\<rparr>,
     \<lparr>label = js ''M'', kind = Variable\<rparr>,
     \<lparr>label = js ''N'', kind = Variable\<rparr>,
     \<lparr>label = js ''O'', kind = Variable\<rparr>,
     \<lparr>label = js ''P'', kind = Variable\<rparr>,
     \<lparr>label = js ''Q'', kind = Variable\<rparr>,
     \<lparr>label = js ''R'', kind = Variable\<rparr>,
     \<lparr>label = js ''S'', kind = Variable\<rparr>,
     \<lparr>label = js ''T'', kind = Variable\<rparr>,
     \<lparr>label = js ''U'', kind = Variable\<rparr>,
     \<lparr>label = js ''V'', kind = Variable\<rparr>,
     \<lparr>label = js ''W'', kind = Variable\<rparr>,
     \<lparr>label = js ''X'', kind = Variable\<rparr>,
     \<lparr>label = js ''Y'', kind = Variable\<rparr>,
     \<lparr>label = js ''Z'', kind = Variable\<rparr>,
     \<lparr>label = [952], kind = Variable\<rparr>,
     \<lparr>label = js ''u'', kind = Variable\<rparr>,
     \<lparr>label = js ''v'', kind = Variable\<rparr>,
     \<lparr>label = js ''w'', kind = Variable\<rparr>,
     \<lparr>label = js ''L1'', kind = Variable\<rparr>,
     \<lparr>label = js ''L2'', kind = Variable\<rparr>,
     \<lparr>label = js ''L3'', kind = Variable\<rparr>,
     \<lparr>label = js ''L4'', kind = Variable\<rparr>,
     \<lparr>label = js ''L5'', kind = Variable\<rparr>,
     \<lparr>label = js ''L6'', kind = Variable\<rparr>,
     \<lparr>label = js ''Str0'', kind = Variable\<rparr>,
     \<lparr>label = js ''Str1'', kind = Variable\<rparr>,
     \<lparr>label = js ''Str2'', kind = Variable\<rparr>,
     \<lparr>label = js ''Str3'', kind = Variable\<rparr>,
     \<lparr>label = js ''Str4'', kind = Variable\<rparr>,
     \<lparr>label = js ''Str5'', kind = Variable\<rparr>,
     \<lparr>label = js ''Str6'', kind = Variable\<rparr>,
     \<lparr>label = js ''Str7'', kind = Variable\<rparr>,
     \<lparr>label = js ''Str8'', kind = Variable\<rparr>,
     \<lparr>label = js ''Str9'', kind = Variable\<rparr>]"

definition completionItems8 :: "CompletionItem list" where
  "completionItems8 =
    [\<lparr>label = js ''Pic0'', kind = Variable\<rparr>,
     \<lparr>label = js ''Pic1'', kind = Variable\<rparr>,
     \<lparr>label = js ''Pic2'', kind = Variable\<rparr>,
     \<lparr>label = js ''Pic3'', kind = Variable\<rparr>,
     \<lparr>label = js ''Pic4'', kind = Variable\<rparr>,
     \<lparr>label = js ''Pic5'', kind = Variable\<rparr>,
     \<lparr>label = js ''Pic6'', kind = Variable\<rparr>,
     \<lparr>label = js ''Pic7'', kind = Variable\<rparr>,
     \<lparr>label = js ''Pic8'', kind = Variable\<rparr>,
     \<lparr>label = js ''Pic9'', kind = Variable\<rparr>,
     \<lparr>label = js ''GDB0'', kind = Variable\<rparr>,
     \<lparr>label = js ''GDB1'', kind = Variable\<rparr>,
     \<lparr>label = js ''GDB2'', kind = Variable\<rparr>,
     \<lparr>label = js ''GDB3'', kind = Variable\<rparr>,
     \<lparr>label = js ''GDB4'', kind = Variable\<rparr>,
     \<lparr>label = js ''GDB5'', kind = Variable\<rparr>,
     \<lparr>label = js ''GDB6'', kind = Variable\<rparr>,
     \<lparr>label = js ''Image0'', kind = Variable\<rparr>,
     \<lparr>label = js ''Image1'', kind = Variable\<rparr>,
     \<lparr>label = js ''Image2'', kind = Variable\<rparr>,
     \<lparr>label = js ''Image3'', kind = Variable\<rparr>,
     \<lparr>label = js ''Image4'', kind = Variable\<rparr>,
     \<lparr>label = js ''Image5'', kind = Variable\<rparr>,
     \<lparr>label = js ''Image6'', kind = Variable\<rparr>,
     \<lparr>label = js ''Image7'', kind = Variable\<rparr>,
     \<lparr>label = js ''Image8'', kind = Variable\<rparr>,
     \<lparr>label = js ''Image9'', kind = Variable\<rparr>,
     \<lparr>label = js ''Y0'', kind = Variable\<rparr>,
     \<lparr>label = js ''Y1'', kind = Variable\<rparr>,
     \<lparr>label = js ''Y2'', kind = Variable\<rparr>,
     \<lparr>label = js ''Y3'', kind = Variable\<rparr>,
     \<lparr>label = js ''Y4'', kind = Variable\<rparr>,
     \<lparr>label = js ''Y5'', kind = Variable\<rparr>,
     \<lparr>label = js ''Y6'', kind = Variable\<rparr>,
     \<lparr>label = js ''Y7'', kind = Variable\<rparr>,
     \<lparr>label = js ''Y8'', kind = Variable\<rparr>,
     \<lparr>label = js ''Y9'', kind = Variable\<rparr>,
     \<lparr>label = js ''r1'', kind = Variable\<rparr>,
     \<lparr>label = js ''r2'', kind = Variable\<rparr>,
     \<lparr>label = js ''r3'', kind = Variable\<rparr>,
     \<lparr>label = js ''r4'', kind = Variable\<rparr>,
     \<lparr>label = js ''r5'', kind = Variable\<rparr>,
     \<lparr>label = js ''r6'', kind = Variable\<rparr>,
     \<lparr>label = js ''[A]'', kind = Variable\<rparr>,
     \<lparr>label = js ''[B]'', kind = Variable\<rparr>,
     \<lparr>label = js ''[C]'', kind = Variable\<rparr>,
     \<lparr>label = js ''[D]'', kind = Variable\<rparr>,
     \<lparr>label = js ''[E]'', kind = Variable\<rparr>,
     \<lparr>label = js ''[F]'', kind = Variable\<rparr>,
     \<lparr>label = js ''[G]'', kind = Variable\<rparr>,
     \<lparr>label = js ''[H]'', kind = Variable\<rparr>,
     \<lparr>label = js ''[I]'', kind = Variable\<rparr>,
     \<lparr>label = js ''[J]'', kind = Variable\<rparr>]"

text \<open>\<^verbatim>\<open>connection.onCompletion\<close>: the parameter is not read.\<close>

definition onCompletion :: "TextDocumentPositionParams \<Rightarrow> CompletionItem list" where
  "onCompletion textDocumentPosition =
     completionItems1 @ completionItems2 @ completionItems3 @ completionItems4 @
     completionItems5 @ completionItems6 @ completionItems7 @ completionItems8"

text \<open>\<^verbatim>\<open>connection.onCompletionResolve\<close>\<close>

definition onCompletionResolve :: "'a CompletionItem_scheme \<Rightarrow> 'a CompletionItem_scheme" where
  "onCompletionResolve item = item"

text \<open>
  The two requests the server answers, and their dispatch; a request handler sees the
  module state and leaves it as it is.
\<close>

datatype Request =
    Completion TextDocumentPositionParams
  | CompletionResolve CompletionItem

datatype Response =
    CompletionList "CompletionItem list"
  | ResolvedItem CompletionItem

fun handleRequest :: "Request \<Rightarrow> ServerState \<Rightarrow> Response" where
  "handleRequest (Completion params) s = CompletionList (onCompletion params)"
| "handleRequest (CompletionResolve item) s = ResolvedItem (onCompletionResolve item)"

section \<open>Facts about the matcher\<close>

lemma firstSome_SomeD: "firstSome f xs = Some r \<Longrightarrow> \<exists>x \<in> set xs. f x = Some r"
  by (induction xs) (auto split: option.splits)

lemma firstSome_None_iff: "firstSome f xs = None \<longleftrightarrow> (\<forall>x \<in> set xs. f x = None)"
  by (induction xs) (auto split: option.splits)

lemma takeWhile_drop_le: "length (takeWhile P (drop i t)) \<le> length t - i"
  by (metis length_drop length_takeWhile_le)

lemma matchAt_bounds:
  "matchAt p t i = Some e \<Longrightarrow> i \<le> e \<and> (i \<le> length t \<longrightarrow> e \<le> length t)"
proof (induction p t i rule: matchAt.induct)
  case (1 t i)
  then show ?case by simp
next
  case (2 p t i)
  then show ?case by (simp split: if_splits)
next
  case (3 cs p t i)
  then show ?case by (auto split: if_splits)
next
  case (4 n cs p t i)
  define k where "k = length (takeWhile (inClass cs) (drop i t))"
  from "4.prems" have "firstSome (\<lambda>j. matchAt p t (i + j)) (rev [n..<Suc k]) = Some e"
    by (simp add: k_def Let_def del: upt_Suc)
  then obtain j where j: "j \<in> set (rev [n..<Suc k])" "matchAt p t (i + j) = Some e"
    by (blast dest: firstSome_SomeD)
  have "k \<le> length t - i" unfolding k_def by (rule takeWhile_drop_le)
  with j(1) have jk: "j \<le> length t - i" by auto
  from "4.IH"[OF k_def j(2)] jk show ?case by auto
qed

lemma takeWhile_two:
  assumes "2 \<le> length (takeWhile P (drop i t))"
  shows "i + 1 < length t \<and> P (t ! i) \<and> P (t ! (i + 1))"
proof -
  let ?xs = "drop i t"
  have len: "length (takeWhile P ?xs) \<le> length ?xs" by (rule length_takeWhile_le)
  with assms have l2: "2 \<le> length ?xs" by linarith
  have a: "\<And>j. j < length (takeWhile P ?xs) \<Longrightarrow> P (?xs ! j)"
    by (metis nth_mem set_takeWhileD takeWhile_nth)
  from assms have "P (?xs ! 0)" "P (?xs ! 1)" by (auto intro: a)
  with l2 show ?thesis by (auto simp: nth_drop)
qed

lemma matchAt_operator:
  "matchAt operatorPattern t i = Some e \<Longrightarrow>
     e = i + 3 \<and> i + 2 < length t \<and> inClass whiteSpace (t ! i) \<and>
     inClass operatorChars (t ! (i + 1)) \<and> inClass whiteSpace (t ! (i + 2))"
  by (auto simp: operatorPattern_def numeral_eq_Suc split: if_splits)

lemma matchAt_upperCase:
  assumes "matchAt upperCasePattern t i = Some e"
  shows "i + 2 \<le> e \<and> i + 1 < length t \<and> inClass upperCase (t ! i) \<and> inClass upperCase (t ! (i + 1))"
proof -
  define k where "k = length (takeWhile (inClass upperCase) (drop i t))"
  from assms have "firstSome (\<lambda>j. matchAt [WordBoundary] t (i + j)) (rev [2..<Suc k]) = Some e"
    by (simp add: upperCasePattern_def k_def Let_def del: upt_Suc split: if_splits)
  then obtain j where j: "j \<in> set (rev [2..<Suc k])" "matchAt [WordBoundary] t (i + j) = Some e"
    by (blast dest: firstSome_SomeD)
  from j(2) have e: "e = i + j" by (simp split: if_splits)
  from j(1) have "2 \<le> j" "2 \<le> k" by auto
  with takeWhile_two[of "inClass upperCase" i t] e show ?thesis by (simp add: k_def)
qed

lemma exec_SomeD:
  assumes "exec p t li = (Some m, li')"
  shows "li \<le> index m \<and> index m \<le> length t \<and> matchAt p t (index m) = Some li' \<and>
         matched m = take (li' - index m) (drop (index m) t)"
proof -
  from assms obtain i e where
    fs: "firstSome (\<lambda>i. map_option (Pair i) (matchAt p t i)) [li..<Suc (length t)] = Some (i, e)"
    and m: "m = \<lparr>index = i, matched = take (e - i) (drop i t)\<rparr>" and e: "li' = e"
    by (auto simp: exec_def split: option.splits)
  from firstSome_SomeD[OF fs] have "i \<in> set [li..<Suc (length t)]" "matchAt p t i = Some e"
    by auto
  with m e show ?thesis by auto
qed

lemma exec_NoneD:
  assumes "exec p t li = (None, li')"
  shows "li' = 0 \<and> (\<forall>i. li \<le> i \<and> i \<le> length t \<longrightarrow> matchAt p t i = None)"
proof -
  from assms have fs: "firstSome (\<lambda>i. map_option (Pair i) (matchAt p t i)) [li..<Suc (length t)] = None"
    and "li' = 0"
    by (auto simp: exec_def split: option.splits)
  then show ?thesis by (auto simp: firstSome_None_iff)
qed

lemma exec_no_match:
  "(\<forall>i. li \<le> i \<and> i \<le> length t \<longrightarrow> matchAt p t i = None) \<Longrightarrow> exec p t li = (None, 0)"
  by (simp add: exec_def firstSome_None_iff[THEN iffD2])

lemma exec_length:
  assumes "exec p t li = (Some m, li')"
  shows "int (index m) + int (length (matched m)) = int li' \<and> li' \<le> length t"
proof -
  from exec_SomeD[OF assms] matchAt_bounds[of p t "index m" li'] show ?thesis by auto
qed

section \<open>Facts about the scanning loop\<close>

lemma scanLoop_None:
  "exec p t li = (None, x) \<Longrightarrow> scanLoop p sev limit pos t li problems ds = ds"
  by (subst scanLoop.simps) simp

lemma scanLoop_Some:
  "exec p t li = (Some m, li') \<Longrightarrow>
   scanLoop p sev limit pos t li problems ds =
     (if real_of_int problems < limit
      then scanLoop p sev limit pos t li' (problems + 1) (ds @ [mkDiagnostic sev pos m])
      else ds)"
  by (subst scanLoop.simps) simp

lemma scanLoop_length_limit:
  "int (length (scanLoop p sev limit pos t li problems ds)) \<le>
     int (length ds) + max 0 (\<lceil>limit\<rceil> - problems)"
proof (induction p sev limit pos t li problems ds rule: scanLoop.induct)
  case (1 p sev limit pos t li problems ds)
  show ?case
  proof (cases "exec p t li")
    case (Pair r li')
    show ?thesis
    proof (cases r)
      case None
      with Pair show ?thesis by (simp add: scanLoop_None)
    next
      case (Some m)
      show ?thesis
      proof (cases "real_of_int problems < limit")
        case True
        then have "problems < \<lceil>limit\<rceil>" by (simp add: less_ceiling_iff)
        with "1.IH"[OF Pair[symmetric] Some True] Pair Some True show ?thesis
          by (simp add: scanLoop_Some)
      next
        case False
        with Pair Some show ?thesis by (simp add: scanLoop_Some)
      qed
    qed
  qed
qed

lemma scanLoop_length_text:
  assumes "\<forall>li m li'. exec p t li = (Some m, li') \<longrightarrow> li < li' \<and> li' \<le> length t"
  shows "length (scanLoop p sev limit pos t li problems ds) \<le> length ds + (length t - li)"
  using assms
proof (induction p sev limit pos t li problems ds rule: scanLoop.induct)
  case (1 p sev limit pos t li problems ds)
  show ?case
  proof (cases "exec p t li")
    case (Pair r li')
    show ?thesis
    proof (cases r)
      case None
      with Pair show ?thesis by (simp add: scanLoop_None)
    next
      case (Some m)
      from "1.prems" Pair Some have adv: "li < li'" "li' \<le> length t" by auto
      show ?thesis
      proof (cases "real_of_int problems < limit")
        case True
        from "1.IH"[OF Pair[symmetric] Some True "1.prems"]
        have "length (scanLoop p sev limit pos t li' (problems + 1) (ds @ [mkDiagnostic sev pos m]))
                \<le> Suc (length ds) + (length t - li')" by simp
        with adv Pair Some True show ?thesis
          by (simp add: scanLoop_Some)
      next
        case False
        with Pair Some show ?thesis by (simp add: scanLoop_Some)
      qed
    qed
  qed
qed


lemma exec_operator_progress:
  assumes "exec operatorPattern t li = (Some m, li')"
  shows "li < li' \<and> li' \<le> length t \<and> length (matched m) = 3 \<and> 0 < index m"
proof -
  from exec_SomeD[OF assms] have a: "li \<le> index m" "index m \<le> length t"
    "matchAt operatorPattern t (index m) = Some li'"
    "matched m = take (li' - index m) (drop (index m) t)" by auto
  from matchAt_operator[OF a(3)] have b: "li' = index m + 3" "index m + 2 < length t" 
     "inClass whiteSpace (t ! index m)" by auto
  from a(3) have wb: "isWordBoundary t (index m)" by (simp add: operatorPattern_def split: if_splits)
  have "\<not> inClass wordChars (t ! index m)" using b(3)
    by (auto simp: inClass_def wordChars_def whiteSpace_def)
  with wb have "0 < index m" by (auto simp: isWordBoundary_def)
  with a b show ?thesis by auto
qed

lemma exec_upperCase_progress:
  assumes "exec upperCasePattern t li = (Some m, li')"
  shows "li < li' \<and> li' \<le> length t \<and> 2 \<le> length (matched m)"
proof -
  from exec_SomeD[OF assms] have a: "li \<le> index m" "index m \<le> length t"
    "matchAt upperCasePattern t (index m) = Some li'"
    "matched m = take (li' - index m) (drop (index m) t)" by auto
  from matchAt_upperCase[OF a(3)] have b: "index m + 2 \<le> li'" by auto
  from exec_length[OF assms] have c: "int (index m) + int (length (matched m)) = int li'" "li' \<le> length t" by auto
  from a b c show ?thesis by auto
qed

lemma hasUpperCaseRun_nth:
  "i + 1 < length t \<Longrightarrow> inClass upperCase (t ! i) \<Longrightarrow> inClass upperCase (t ! (i + 1)) \<Longrightarrow>
   hasUpperCaseRun t"
proof (induction t arbitrary: i rule: hasUpperCaseRun.induct)
  case (1 a b t)
  then show ?case by (cases i) auto
qed auto

lemma hasClassMemberInWhiteSpace_nth:
  "i + 2 < length t \<Longrightarrow> inClass whiteSpace (t ! i) \<Longrightarrow> inClass operatorChars (t ! (i + 1)) \<Longrightarrow>
   inClass whiteSpace (t ! (i + 2)) \<Longrightarrow> hasClassMemberInWhiteSpace t"
proof (induction t arbitrary: i rule: hasClassMemberInWhiteSpace.induct)
  case (1 a b c t)
  then show ?case by (cases i) auto
qed auto

lemma exec_operator_None:
  "\<not> hasClassMemberInWhiteSpace t \<Longrightarrow> exec operatorPattern t li = (None, 0)"
  by (rule exec_no_match) (metis hasClassMemberInWhiteSpace_nth matchAt_operator not_Some_eq)

lemma exec_upperCase_None:
  "\<not> hasUpperCaseRun t \<Longrightarrow> exec upperCasePattern t li = (None, 0)"
  by (rule exec_no_match) (metis hasUpperCaseRun_nth matchAt_upperCase not_Some_eq)

lemma fst_onDidChangeContent:
  "fst (onDidChangeContent cfg pos doc s) =
     (uri doc, scanLoop operatorPattern Error 1000 (pos doc) (getText doc) 0 0 [])"
  by (simp add: onDidChangeContent_def Let_def split: prod.splits)

lemma fst_validateTextDocument:
  "fst (validateTextDocument cfg pos doc s) =
     (uri doc, scanLoop upperCasePattern Warning
        (maxNumberOfProblems (fst (getDocumentSettings cfg (uri doc) s))) (pos doc) (getText doc) 0 0 [])"
  by (simp add: validateTextDocument_def Let_def split: prod.splits)

lemma snd_onDidChangeContent:
  "snd (onDidChangeContent cfg pos doc s) = snd (getDocumentSettings cfg (uri doc) s)"
  by (simp add: onDidChangeContent_def Let_def split: prod.splits)

lemma snd_validateTextDocument:
  "snd (validateTextDocument cfg pos doc s) = snd (getDocumentSettings cfg (uri doc) s)"
  by (simp add: validateTextDocument_def Let_def split: prod.splits)

section \<open>The diagnostic scans\<close>

lemmas matcher_defs =
  exec_def js_def upt_rec operatorPattern_def upperCasePattern_def isWordBoundary_def
  inClass_def wordChars_def whiteSpace_def operatorChars_def upperCase_def

lemma exec_operator_line_feeds_0:
  "exec operatorPattern [120, 10, 43, 10, 121] 0 =
     (Some \<lparr>index = 1, matched = [10, 43, 10]\<rparr>, 4)"
  by (simp add: matcher_defs)

lemma exec_operator_line_feeds_4:
  "exec operatorPattern [120, 10, 43, 10, 121] 4 = (None, 0)"
  by (simp add: matcher_defs)

lemma exec_operator_bar_0:
  "exec operatorPattern (js ''a | b'') 0 = (Some \<lparr>index = 1, matched = js '' | ''\<rparr>, 4)"
  by (simp add: matcher_defs)

lemma exec_operator_bar_4:
  "exec operatorPattern (js ''a | b'') 4 = (None, 0)"
  by (simp add: matcher_defs)

text \<open>
  C4 as stated fails. The text \<^verbatim>\<open>x\<close>, line feed, \<^verbatim>\<open>+\<close>, line feed, \<^verbatim>\<open>y\<close> has
  no run of upper-case letters and no operator between two spaces, and the
  content-change handler publishes an error for it: \<^verbatim>\<open>\s\<close> accepts the line feed.
  So does the text \<^verbatim>\<open>a | b\<close>, whose bar is no operator: inside the brackets of the
  pattern the bar is a member of the class.
\<close>

theorem operator_scan_flags_line_feeds_and_bar:
  "\<not> hasUpperCaseRun [120, 10, 43, 10, 121] \<and>
   \<not> hasSpacedOperator [120, 10, 43, 10, 121] \<and>
   snd (fst (onDidChangeContent (constantClient defaultSettings) offsetAt
     \<lparr>uri = ''file:///a.8xp'', getText = [120, 10, 43, 10, 121]\<rparr> initialState)) =
     [\<lparr>severity = Error, range = \<lparr>range_start = 0, range_end = 5\<rparr>,
       message = [10, 43, 10] @ js '' is surrounded by spaces.'', source = js ''ex''\<rparr>] \<and>
   \<not> hasUpperCaseRun (js ''a | b'') \<and>
   \<not> hasSpacedOperator (js ''a | b'') \<and>
   snd (fst (onDidChangeContent (constantClient defaultSettings) offsetAt
     \<lparr>uri = ''file:///a.8xp'', getText = js ''a | b''\<rparr> initialState)) =
     [\<lparr>severity = Error, range = \<lparr>range_start = 0, range_end = 5\<rparr>,
       message = js '' |  is surrounded by spaces.'', source = js ''ex''\<rparr>]"
proof -
  have a: "\<not> hasUpperCaseRun [120, 10, 43, 10, 121]" "\<not> hasUpperCaseRun (js ''a | b'')"
    by (simp_all add: js_def inClass_def upperCase_def)
  have b: "\<not> hasSpacedOperator [120, 10, 43, 10, 121]" "\<not> hasSpacedOperator (js ''a | b'')"
    by (simp_all add: js_def inClass_def specOperators_def)
  have c: "snd (fst (onDidChangeContent (constantClient defaultSettings) offsetAt
     \<lparr>uri = ''file:///a.8xp'', getText = [120, 10, 43, 10, 121]\<rparr> initialState)) =
     [\<lparr>severity = Error, range = \<lparr>range_start = 0, range_end = 5\<rparr>,
       message = [10, 43, 10] @ js '' is surrounded by spaces.'', source = js ''ex''\<rparr>]"
    by (simp add: fst_onDidChangeContent scanLoop_Some[OF exec_operator_line_feeds_0]
          scanLoop_None[OF exec_operator_line_feeds_4] mkDiagnostic_def offsetAt_def)
  have d: "snd (fst (onDidChangeContent (constantClient defaultSettings) offsetAt
     \<lparr>uri = ''file:///a.8xp'', getText = js ''a | b''\<rparr> initialState)) =
     [\<lparr>severity = Error, range = \<lparr>range_start = 0, range_end = 5\<rparr>,
       message = js '' |  is surrounded by spaces.'', source = js ''ex''\<rparr>]"
    by (simp add: fst_onDidChangeContent scanLoop_Some[OF exec_operator_bar_0]
          scanLoop_None[OF exec_operator_bar_4] mkDiagnostic_def offsetAt_def; simp add: js_def)
  from a b c d show ?thesis by blast
qed

text \<open>
  C4, as the code has it: for every document text with no run of two or more
  upper-case letters and no member of the operator pattern's class (an operator
  character or the bar) that stands directly between two white-space characters (a
  space, a tab, a line break or another character that \<^verbatim>\<open>\s\<close> accepts), both
  scans produce an empty list of diagnostics.
\<close>

theorem no_findings_no_diagnostics:
  assumes "\<not> hasUpperCaseRun (getText doc)"
    and "\<not> hasClassMemberInWhiteSpace (getText doc)"
  shows "snd (fst (onDidChangeContent cfg pos doc s)) = [] \<and>
         snd (fst (validateTextDocument cfg pos doc s)) = []"
  using assms
  by (simp add: fst_onDidChangeContent fst_validateTextDocument
        scanLoop_None[OF exec_operator_None] scanLoop_None[OF exec_upperCase_None])

text \<open>The text \<^verbatim>\<open>Disp Ab+c d\<close> has neither, and gets no diagnostic.\<close>

theorem no_findings_no_diagnostics_witness:
  "\<not> hasUpperCaseRun (js ''Disp Ab+c d'') \<and>
   \<not> hasClassMemberInWhiteSpace (js ''Disp Ab+c d'') \<and>
   snd (fst (onDidChangeContent (constantClient defaultSettings) offsetAt
     \<lparr>uri = ''file:///a.8xp'', getText = js ''Disp Ab+c d''\<rparr> initialState)) = [] \<and>
   snd (fst (validateTextDocument (constantClient defaultSettings) offsetAt
     \<lparr>uri = ''file:///a.8xp'', getText = js ''Disp Ab+c d''\<rparr> initialState)) = []"
proof -
  have a: "\<not> hasUpperCaseRun (getText \<lparr>uri = ''file:///a.8xp'', getText = js ''Disp Ab+c d''\<rparr>)"
    by (simp add: js_def inClass_def upperCase_def)
  have b: "\<not> hasClassMemberInWhiteSpace
      (getText \<lparr>uri = ''file:///a.8xp'', getText = js ''Disp Ab+c d''\<rparr>)"
    by (simp add: js_def inClass_def whiteSpace_def operatorChars_def)
  from a b no_findings_no_diagnostics[OF a b, of "constantClient defaultSettings" offsetAt initialState]
  show ?thesis by simp
qed

text \<open>
  C3, as the code has it: for every document text and every configured
  \<^verbatim>\<open>maxNumberOfProblems\<close>, the number of warnings of the upper-case scan is at
  most \<^verbatim>\<open>maxNumberOfProblems\<close> rounded up to a whole number, and none when
  \<^verbatim>\<open>maxNumberOfProblems\<close> is 0 or less, however many matches the text contains.
  For a setting that is a whole number and not negative this is the setting itself.
\<close>

theorem warnings_bounded:
  "int (length (snd (fst (validateTextDocument cfg pos doc s)))) \<le>
     max 0 \<lceil>maxNumberOfProblems (fst (getDocumentSettings cfg (uri doc) s))\<rceil>"
  using scanLoop_length_limit[of upperCasePattern Warning
      "maxNumberOfProblems (fst (getDocumentSettings cfg (uri doc) s))" "pos doc" "getText doc" 0 0 "[]"]
  by (simp add: fst_validateTextDocument)

text \<open>
  C9: for every document text, the number of errors of the operator scan in the
  content-change handler is at most 1000, and what the handler publishes is the same
  whatever the settings are and wherever they come from.
\<close>

theorem errors_bounded_by_1000:
  "length (snd (fst (onDidChangeContent cfg pos doc s))) \<le> 1000 \<and>
   fst (onDidChangeContent cfg pos doc s) = fst (onDidChangeContent cfg' pos doc s')"
  using scanLoop_length_limit[of operatorPattern Error 1000 "pos doc" "getText doc" 0 0 "[]"]
  by (simp add: fst_onDidChangeContent)

lemma exec_operator_AB_plus_CD_0:
  "exec operatorPattern (js ''AB + CD'') 0 = (Some \<lparr>index = 2, matched = js '' + ''\<rparr>, 5)"
  by (simp add: matcher_defs)

lemma exec_operator_AB_plus_CD_5:
  "exec operatorPattern (js ''AB + CD'') 5 = (None, 0)"
  by (simp add: matcher_defs)

lemma exec_upperCase_AB_plus_CD_0:
  "exec upperCasePattern (js ''AB + CD'') 0 = (Some \<lparr>index = 0, matched = js ''AB''\<rparr>, 2)"
  by (simp add: matcher_defs)

lemma exec_upperCase_AB_plus_CD_2:
  "exec upperCasePattern (js ''AB + CD'') 2 = (Some \<lparr>index = 5, matched = js ''CD''\<rparr>, 7)"
  by (simp add: matcher_defs)

lemma exec_upperCase_AB_plus_CD_7:
  "exec upperCasePattern (js ''AB + CD'') 7 = (None, 0)"
  by (simp add: matcher_defs)

lemma scan_operator_AB_plus_CD:
  "scanLoop operatorPattern Error 1000 pos (js ''AB + CD'') 0 0 [] =
     [\<lparr>severity = Error, range = \<lparr>range_start = pos 1, range_end = pos 6\<rparr>,
       message = js '' +  is surrounded by spaces.'', source = js ''ex''\<rparr>]"
  by (simp add: scanLoop_Some[OF exec_operator_AB_plus_CD_0]
        scanLoop_None[OF exec_operator_AB_plus_CD_5] mkDiagnostic_def; simp add: js_def)

lemma scan_upperCase_AB_plus_CD:
  "2 \<le> limit \<Longrightarrow>
   scanLoop upperCasePattern Warning limit pos (js ''AB + CD'') 0 0 [] =
     [\<lparr>severity = Warning, range = \<lparr>range_start = pos (- 1), range_end = pos 3\<rparr>,
       message = js ''AB is surrounded by spaces.'', source = js ''ex''\<rparr>,
      \<lparr>severity = Warning, range = \<lparr>range_start = pos 4, range_end = pos 8\<rparr>,
       message = js ''CD is surrounded by spaces.'', source = js ''ex''\<rparr>]"
  by (simp add: scanLoop_Some[OF exec_upperCase_AB_plus_CD_0]
        scanLoop_Some[OF exec_upperCase_AB_plus_CD_2]
        scanLoop_None[OF exec_upperCase_AB_plus_CD_7] mkDiagnostic_def; simp add: js_def)

lemma exec_upperCase_four_words_0:
  "exec upperCasePattern (js ''AB CD EF GH'') 0 = (Some \<lparr>index = 0, matched = js ''AB''\<rparr>, 2)"
  by (simp add: matcher_defs)

lemma exec_upperCase_four_words_2:
  "exec upperCasePattern (js ''AB CD EF GH'') 2 = (Some \<lparr>index = 3, matched = js ''CD''\<rparr>, 5)"
  by (simp add: matcher_defs)

lemma exec_upperCase_four_words_5:
  "exec upperCasePattern (js ''AB CD EF GH'') 5 = (Some \<lparr>index = 6, matched = js ''EF''\<rparr>, 8)"
  by (simp add: matcher_defs)

lemma exec_upperCase_four_words_8:
  "exec upperCasePattern (js ''AB CD EF GH'') 8 = (Some \<lparr>index = 9, matched = js ''GH''\<rparr>, 11)"
  by (simp add: matcher_defs)

lemma scan_upperCase_four_words:
  "length (scanLoop upperCasePattern Warning (5 / 2) pos (js ''AB CD EF GH'') 0 0 []) = 3"
  by (simp add: scanLoop_Some[OF exec_upperCase_four_words_0]
        scanLoop_Some[OF exec_upperCase_four_words_2]
        scanLoop_Some[OF exec_upperCase_four_words_5]
        scanLoop_Some[OF exec_upperCase_four_words_8])

text \<open>
  C3 as stated fails for a setting that is not a whole number: with
  \<^verbatim>\<open>maxNumberOfProblems\<close> configured as 2.5, the scan of \<^verbatim>\<open>AB CD EF GH\<close>
  produces 3 warnings (the guard \<^verbatim>\<open>problems < 2.5\<close> holds for 0, 1 and 2), and 3
  is more than 2.5.
\<close>

theorem warnings_exceed_fractional_limit:
  "maxNumberOfProblems (fst (getDocumentSettings (constantClient \<lparr>maxNumberOfProblems = 5 / 2\<rparr>)
       ''file:///a.8xp''
       (onInitialize \<lparr>workspace_configuration = True, workspace_workspaceFolders = False,
          publishDiagnostics_relatedInformation = False\<rparr> initialState))) = 5 / 2 \<and>
   length (snd (fst (validateTextDocument (constantClient \<lparr>maxNumberOfProblems = 5 / 2\<rparr>)
       offsetAt \<lparr>uri = ''file:///a.8xp'', getText = js ''AB CD EF GH''\<rparr>
       (onInitialize \<lparr>workspace_configuration = True, workspace_workspaceFolders = False,
          publishDiagnostics_relatedInformation = False\<rparr> initialState)))) = 3 \<and>
   \<not> real (length (snd (fst (validateTextDocument (constantClient \<lparr>maxNumberOfProblems = 5 / 2\<rparr>)
       offsetAt \<lparr>uri = ''file:///a.8xp'', getText = js ''AB CD EF GH''\<rparr>
       (onInitialize \<lparr>workspace_configuration = True, workspace_workspaceFolders = False,
          publishDiagnostics_relatedInformation = False\<rparr> initialState))))) \<le> 5 / 2"
proof -
  let ?S = "onInitialize \<lparr>workspace_configuration = True, workspace_workspaceFolders = False,
          publishDiagnostics_relatedInformation = False\<rparr> initialState"
  let ?C = "constantClient \<lparr>maxNumberOfProblems = 5 / 2\<rparr>"
  have a: "maxNumberOfProblems (fst (getDocumentSettings ?C ''file:///a.8xp'' ?S)) = 5 / 2"
    by (simp add: getDocumentSettings_def onInitialize_def initialState_def constantClient_def
          Let_def)
  have b: "length (snd (fst (validateTextDocument ?C offsetAt
       \<lparr>uri = ''file:///a.8xp'', getText = js ''AB CD EF GH''\<rparr> ?S))) = 3"
    by (simp add: fst_validateTextDocument a scan_upperCase_four_words)
  from a b show ?thesis by simp
qed

text \<open>
  C8: on every input text both loops come to an end and nothing in them can fail. A
  failed \<^verbatim>\<open>exec\<close> ends the loop with the diagnostics collected so far; a match of
  either pattern is not empty and moves \<^verbatim>\<open>lastIndex\<close> forward, within the text;
  so neither scan runs its body more often than the text has code units, whatever the
  bound on the number of problems is.
\<close>

theorem scans_terminate:
  "(exec p t li = (None, li') \<longrightarrow> scanLoop p sev limit pos t li problems ds = ds) \<and>
   (exec operatorPattern t li = (Some m, li') \<longrightarrow>
      li < li' \<and> li' \<le> length t \<and> matched m \<noteq> []) \<and>
   (exec upperCasePattern t li = (Some m, li') \<longrightarrow>
      li < li' \<and> li' \<le> length t \<and> matched m \<noteq> []) \<and>
   length (snd (fst (onDidChangeContent cfg posAt doc s))) \<le> length (getText doc) \<and>
   length (snd (fst (validateTextDocument cfg posAt doc s))) \<le> length (getText doc)"
proof -
  have a: "exec p t li = (None, li') \<longrightarrow> scanLoop p sev limit pos t li problems ds = ds"
    by (simp add: scanLoop_None)
  have b: "exec operatorPattern t li = (Some m, li') \<longrightarrow>
      li < li' \<and> li' \<le> length t \<and> matched m \<noteq> []"
    using exec_operator_progress[of t li m li'] by auto
  have c: "exec upperCasePattern t li = (Some m, li') \<longrightarrow>
      li < li' \<and> li' \<le> length t \<and> matched m \<noteq> []"
    using exec_upperCase_progress[of t li m li'] by auto
  have d: "length (snd (fst (onDidChangeContent cfg posAt doc s))) \<le> length (getText doc)"
    using scanLoop_length_text[of operatorPattern "getText doc" Error 1000 "posAt doc" 0 0 "[]"]
      exec_operator_progress[of "getText doc"]
    by (simp add: fst_onDidChangeContent)
  have e: "length (snd (fst (validateTextDocument cfg posAt doc s))) \<le> length (getText doc)"
    using scanLoop_length_text[of upperCasePattern "getText doc" Warning
        "maxNumberOfProblems (fst (getDocumentSettings cfg (uri doc) s))" "posAt doc" 0 0 "[]"]
      exec_upperCase_progress[of "getText doc"]
    by (simp add: fst_validateTextDocument)
  from a b c d e show ?thesis by blast
qed

text \<open>
  On \<^verbatim>\<open>AB + CD\<close>: the operator pattern finds nothing from position 5 on, and the
  loop stops there; from position 0 it finds the three code units at 2 and moves to 5;
  the upper-case pattern finds \<^verbatim>\<open>AB\<close> at 0 and moves to 2; each scan runs its body
  at most 7 times.
\<close>

theorem scans_terminate_witness:
  "exec operatorPattern (js ''AB + CD'') 5 = (None, 0) \<and>
   scanLoop operatorPattern Error 1000
     (offsetAt \<lparr>uri = ''file:///a.8xp'', getText = js ''AB + CD''\<rparr>) (js ''AB + CD'') 5 1 [] = [] \<and>
   exec operatorPattern (js ''AB + CD'') 0 = (Some \<lparr>index = 2, matched = js '' + ''\<rparr>, 5) \<and>
   (0::nat) < 5 \<and> 5 \<le> length (js ''AB + CD'') \<and> js '' + '' \<noteq> [] \<and>
   exec upperCasePattern (js ''AB + CD'') 0 = (Some \<lparr>index = 0, matched = js ''AB''\<rparr>, 2) \<and>
   (0::nat) < 2 \<and> 2 \<le> length (js ''AB + CD'') \<and> js ''AB'' \<noteq> [] \<and>
   length (snd (fst (onDidChangeContent (constantClient defaultSettings) offsetAt
     \<lparr>uri = ''file:///a.8xp'', getText = js ''AB + CD''\<rparr> initialState))) \<le> 7 \<and>
   length (snd (fst (validateTextDocument (constantClient defaultSettings) offsetAt
     \<lparr>uri = ''file:///a.8xp'', getText = js ''AB + CD''\<rparr> initialState))) \<le> 7"
proof -
  let ?D = "\<lparr>uri = ''file:///a.8xp'', getText = js ''AB + CD''\<rparr>"
  note a = scans_terminate[where p = operatorPattern and t = "js ''AB + CD''" and li = 5
      and li' = 0 and sev = Error and limit = 1000 and pos = "offsetAt ?D" and problems = 1
      and ds = "[]" and doc = ?D and cfg = "constantClient defaultSettings" and posAt = offsetAt
      and s = initialState]
  note b = scans_terminate[where t = "js ''AB + CD''" and li = 0 and li' = 5
      and m = "\<lparr>index = 2, matched = js '' + ''\<rparr>"]
  note c = scans_terminate[where t = "js ''AB + CD''" and li = 0 and li' = 2
      and m = "\<lparr>index = 0, matched = js ''AB''\<rparr>"]
  have len: "length (js ''AB + CD'') = 7" by (simp add: js_def)
  have ne: "js '' + '' \<noteq> []" "js ''AB'' \<noteq> []" by (simp_all add: js_def)
  from a b c len ne exec_operator_AB_plus_CD_5 exec_operator_AB_plus_CD_0 exec_upperCase_AB_plus_CD_0
  show ?thesis by simp
qed

lemma getDocumentSettings_initial:
  "maxNumberOfProblems (fst (getDocumentSettings (constantClient defaultSettings) u initialState)) = 1000"
  by (simp add: getDocumentSettings_def initialState_def defaultSettings_def)

lemma errors_AB_plus_CD:
  "snd (fst (onDidChangeContent cfg pos \<lparr>uri = u, getText = js ''AB + CD''\<rparr> s)) =
     [\<lparr>severity = Error,
       range = \<lparr>range_start = pos \<lparr>uri = u, getText = js ''AB + CD''\<rparr> 1,
                 range_end = pos \<lparr>uri = u, getText = js ''AB + CD''\<rparr> 6\<rparr>,
       message = js '' +  is surrounded by spaces.'', source = js ''ex''\<rparr>]"
  by (simp add: fst_onDidChangeContent scan_operator_AB_plus_CD)

lemma warnings_AB_plus_CD:
  "2 \<le> maxNumberOfProblems (fst (getDocumentSettings cfg u s)) \<Longrightarrow>
   snd (fst (validateTextDocument cfg pos \<lparr>uri = u, getText = js ''AB + CD''\<rparr> s)) =
     [\<lparr>severity = Warning,
       range = \<lparr>range_start = pos \<lparr>uri = u, getText = js ''AB + CD''\<rparr> (- 1),
                 range_end = pos \<lparr>uri = u, getText = js ''AB + CD''\<rparr> 3\<rparr>,
       message = js ''AB is surrounded by spaces.'', source = js ''ex''\<rparr>,
      \<lparr>severity = Warning,
       range = \<lparr>range_start = pos \<lparr>uri = u, getText = js ''AB + CD''\<rparr> 4,
                 range_end = pos \<lparr>uri = u, getText = js ''AB + CD''\<rparr> 8\<rparr>,
       message = js ''CD is surrounded by spaces.'', source = js ''ex''\<rparr>]"
  by (simp add: fst_validateTextDocument scan_upperCase_AB_plus_CD)






section \<open>Facts about the settings cache\<close>

lemma uri_set_setDocument: "uri ` set (setDocument d ds) = insert (uri d) (uri ` set ds)"
  by (induction ds) auto

lemma uri_set_deleteDocument: "uri ` set (deleteDocument u ds) = uri ` set ds - {u}"
  by (auto simp: deleteDocument_def)

lemma getDocumentSettings_frame:
  "documents (snd (getDocumentSettings cfg u s)) = documents s \<and>
   hasConfigurationCapability (snd (getDocumentSettings cfg u s)) = hasConfigurationCapability s \<and>
   globalSettings (snd (getDocumentSettings cfg u s)) = globalSettings s"
  by (simp add: getDocumentSettings_def Let_def split: option.splits)

lemma getDocumentSettings_dom:
  "hasConfigurationCapability s \<Longrightarrow>
   dom (documentSettings (snd (getDocumentSettings cfg u s))) = insert u (dom (documentSettings s))"
  by (auto simp: getDocumentSettings_def Let_def split: option.splits)

lemma getDocumentSettings_no_capability:
  "\<not> hasConfigurationCapability s \<Longrightarrow> getDocumentSettings cfg u s = (globalSettings s, s)"
  by (simp add: getDocumentSettings_def)

lemma validateAll_frame:
  "documents (snd (validateAll cfg pos ds s)) = documents s \<and>
   hasConfigurationCapability (snd (validateAll cfg pos ds s)) = hasConfigurationCapability s"
  by (induction ds arbitrary: s)
     (simp_all add: snd_validateTextDocument getDocumentSettings_frame case_prod_beta Let_def)

lemma validateAll_dom:
  "hasConfigurationCapability s \<Longrightarrow>
   dom (documentSettings (snd (validateAll cfg pos ds s))) = dom (documentSettings s) \<union> uri ` set ds"
proof (induction ds arbitrary: s)
  case Nil
  then show ?case by simp
next
  case (Cons d ds)
  let ?s' = "snd (validateTextDocument cfg pos d s)"
  have s': "?s' = snd (getDocumentSettings cfg (uri d) s)" by (rule snd_validateTextDocument)
  with Cons.prems have cap: "hasConfigurationCapability ?s'" by (simp add: getDocumentSettings_frame)
  have "snd (validateAll cfg pos (d # ds) s) = snd (validateAll cfg pos ds ?s')"
    by (simp add: case_prod_beta Let_def)
  with Cons.IH[OF cap] s' Cons.prems show ?case
    by (auto simp: getDocumentSettings_dom)
qed

lemma validateAll_no_capability:
  "\<not> hasConfigurationCapability s \<Longrightarrow> snd (validateAll cfg pos ds s) = s"
  by (induction ds arbitrary: s)
     (simp_all add: snd_validateTextDocument getDocumentSettings_no_capability case_prod_beta Let_def)

lemma handleNotification_capability:
  "hasConfigurationCapability (snd (handleNotification cfg pos n s)) = hasConfigurationCapability s"
  by (cases n)
     (simp_all add: snd_onDidChangeContent getDocumentSettings_frame onDidClose_def
        onDidChangeConfiguration_def validateAll_frame Let_def case_prod_beta)

lemma handleNotification_invariant:
  assumes "hasConfigurationCapability s" and "cacheMatchesOpen s"
  shows "cacheMatchesOpen (snd (handleNotification cfg pos n s))"
proof (cases n)
  case (DidOpenTextDocument d)
  with assms show ?thesis
    by (simp add: cacheMatchesOpen_def openUris_def snd_onDidChangeContent getDocumentSettings_frame
          getDocumentSettings_dom uri_set_setDocument case_prod_beta Let_def)
next
  case (DidChangeTextDocument d)
  with assms show ?thesis
    by (auto simp: cacheMatchesOpen_def openUris_def snd_onDidChangeContent getDocumentSettings_frame
          getDocumentSettings_dom uri_set_setDocument case_prod_beta Let_def)
next
  case (DidCloseTextDocument d)
  with assms show ?thesis
    by (auto simp: cacheMatchesOpen_def openUris_def onDidClose_def uri_set_deleteDocument)
next
  case (DidChangeConfiguration change)
  with assms show ?thesis
    by (simp add: cacheMatchesOpen_def openUris_def onDidChangeConfiguration_def validateAll_frame
          validateAll_dom)
qed

lemma handleNotification_no_capability:
  assumes "\<not> hasConfigurationCapability s" and "documentSettings s = Map.empty"
  shows "documentSettings (snd (handleNotification cfg pos n s)) = Map.empty"
proof (cases n)
  case (DidOpenTextDocument d)
  with assms show ?thesis
    by (simp add: snd_onDidChangeContent getDocumentSettings_no_capability case_prod_beta Let_def)
next
  case (DidChangeTextDocument d)
  with assms show ?thesis
    by (simp add: snd_onDidChangeContent getDocumentSettings_no_capability case_prod_beta Let_def)
next
  case (DidCloseTextDocument d)
  with assms show ?thesis
    by (simp add: onDidClose_def)
next
  case (DidChangeConfiguration change)
  with assms show ?thesis
    by (simp add: onDidChangeConfiguration_def validateAll_no_capability)
qed

section \<open>The settings cache\<close>

text \<open>
  C2 as stated fails for a client without the \<^verbatim>\<open>workspace/configuration\<close>
  capability: after the first document is opened the cache is still empty, so its key
  set is not the set of open URIs.
\<close>

theorem cache_empty_without_capability:
  "\<not> cacheMatchesOpen (snd (handleNotification (constantClient defaultSettings) offsetAt
       (DidOpenTextDocument \<lparr>uri = ''file:///a.8xp'', getText = js ''AB + CD''\<rparr>) initialState))"
  by (simp add: cacheMatchesOpen_def openUris_def snd_onDidChangeContent
        getDocumentSettings_no_capability initialState_def case_prod_beta)

text \<open>
  C2, as the code has it: the cache and the open documents agree when the server
  starts. For a client with the \<^verbatim>\<open>workspace/configuration\<close> capability, every
  notification (open, content change, close, configuration change) keeps the key set
  of \<open>documentSettings\<close> equal to the set of URIs of the open documents. For a
  client without it, no notification writes the cache: it stays empty, whatever
  documents are open.
\<close>

theorem cache_matches_open_documents:
  "cacheMatchesOpen (onInitialize capabilities initialState) \<and>
   (hasConfigurationCapability s \<and> cacheMatchesOpen s \<longrightarrow>
      cacheMatchesOpen (snd (handleNotification cfg pos n s)) \<and>
      hasConfigurationCapability (snd (handleNotification cfg pos n s))) \<and>
   (\<not> hasConfigurationCapability s \<and> documentSettings s = Map.empty \<longrightarrow>
      documentSettings (snd (handleNotification cfg pos n s)) = Map.empty \<and>
      \<not> hasConfigurationCapability (snd (handleNotification cfg pos n s)))"
proof -
  have "cacheMatchesOpen (onInitialize capabilities initialState)"
    by (simp add: cacheMatchesOpen_def openUris_def onInitialize_def initialState_def)
  then show ?thesis
    by (simp add: handleNotification_invariant handleNotification_no_capability
          handleNotification_capability)
qed

text \<open>
  A client with the capability opens a document: the invariant holds before and
  after. A client without it opens the same document: the cache is empty before and
  after.
\<close>

theorem cache_matches_open_documents_witness:
  "hasConfigurationCapability
     (onInitialize \<lparr>workspace_configuration = True, workspace_workspaceFolders = False,
        publishDiagnostics_relatedInformation = False\<rparr> initialState) \<and>
   cacheMatchesOpen
     (onInitialize \<lparr>workspace_configuration = True, workspace_workspaceFolders = False,
        publishDiagnostics_relatedInformation = False\<rparr> initialState) \<and>
   cacheMatchesOpen (snd (handleNotification (constantClient defaultSettings) offsetAt
     (DidOpenTextDocument \<lparr>uri = ''file:///a.8xp'', getText = js ''AB + CD''\<rparr>)
     (onInitialize \<lparr>workspace_configuration = True, workspace_workspaceFolders = False,
        publishDiagnostics_relatedInformation = False\<rparr> initialState))) \<and>
   \<not> hasConfigurationCapability initialState \<and>
   documentSettings initialState = Map.empty \<and>
   documentSettings (snd (handleNotification (constantClient defaultSettings) offsetAt
     (DidOpenTextDocument \<lparr>uri = ''file:///a.8xp'', getText = js ''AB + CD''\<rparr>)
     initialState)) = Map.empty"
proof -
  let ?caps = "\<lparr>workspace_configuration = True, workspace_workspaceFolders = False,
        publishDiagnostics_relatedInformation = False\<rparr>"
  let ?n = "DidOpenTextDocument \<lparr>uri = ''file:///a.8xp'', getText = js ''AB + CD''\<rparr>"
  have a: "hasConfigurationCapability (onInitialize ?caps initialState)"
    by (simp add: onInitialize_def)
  have b: "\<not> hasConfigurationCapability initialState" "documentSettings initialState = Map.empty"
    by (simp_all add: initialState_def)
  from a b
    cache_matches_open_documents[of ?caps "onInitialize ?caps initialState"
      "constantClient defaultSettings" offsetAt ?n]
    cache_matches_open_documents[of ?caps initialState "constantClient defaultSettings" offsetAt ?n]
  show ?thesis by simp
qed

text \<open>
  C7: closing a document removes that document's entry from the settings cache and
  leaves the entry of every other URI, and everything else in the state, as it was.
  After the removal no lookup for that URI returns the removed entry: for a client
  with the \<^verbatim>\<open>workspace/configuration\<close> capability the lookup asks the client
  again, returns its answer and caches it; for a client without the capability, for
  which the cache is never used, the lookup returns the current global settings.
\<close>

theorem close_removes_cache_entry:
  "documentSettings (onDidClose d s) (uri d) = None \<and>
   (\<forall>u. u \<noteq> uri d \<longrightarrow> documentSettings (onDidClose d s) u = documentSettings s u) \<and>
   onDidClose d s = s\<lparr>documentSettings := documentSettings (onDidClose d s)\<rparr> \<and>
   (hasConfigurationCapability s \<longrightarrow>
      getDocumentSettings cfg (uri d) (onDidClose d s) =
        (cfg (uri d), s\<lparr>documentSettings := (documentSettings s)(uri d \<mapsto> cfg (uri d))\<rparr>)) \<and>
   (\<not> hasConfigurationCapability s \<longrightarrow>
      getDocumentSettings cfg (uri d) (onDidClose d s) = (globalSettings s, onDidClose d s))"
  by (simp add: onDidClose_def getDocumentSettings_def Let_def)

text \<open>
  A client with the capability; the cache holds 7 for \<^verbatim>\<open>a.8xp\<close> and 9 for
  \<^verbatim>\<open>b.8xp\<close>, and the client's configuration is now 5. Closing \<^verbatim>\<open>a.8xp\<close>
  removes its entry and keeps the other; the next lookup returns 5 and caches it. For
  a client without the capability the lookup returns the global settings.
\<close>

theorem close_removes_cache_entry_witness:
  "hasConfigurationCapability
     (initialState\<lparr>hasConfigurationCapability := True,
        documentSettings := [''file:///a.8xp'' \<mapsto> \<lparr>maxNumberOfProblems = 7\<rparr>,
                             ''file:///b.8xp'' \<mapsto> \<lparr>maxNumberOfProblems = 9\<rparr>]\<rparr>) \<and>
   documentSettings
     (onDidClose \<lparr>uri = ''file:///a.8xp'', getText = js ''AB + CD''\<rparr>
       (initialState\<lparr>hasConfigurationCapability := True,
          documentSettings := [''file:///a.8xp'' \<mapsto> \<lparr>maxNumberOfProblems = 7\<rparr>,
                               ''file:///b.8xp'' \<mapsto> \<lparr>maxNumberOfProblems = 9\<rparr>]\<rparr>))
     ''file:///a.8xp'' = None \<and>
   documentSettings
     (onDidClose \<lparr>uri = ''file:///a.8xp'', getText = js ''AB + CD''\<rparr>
       (initialState\<lparr>hasConfigurationCapability := True,
          documentSettings := [''file:///a.8xp'' \<mapsto> \<lparr>maxNumberOfProblems = 7\<rparr>,
                               ''file:///b.8xp'' \<mapsto> \<lparr>maxNumberOfProblems = 9\<rparr>]\<rparr>))
     ''file:///b.8xp'' = Some \<lparr>maxNumberOfProblems = 9\<rparr> \<and>
   fst (getDocumentSettings (constantClient \<lparr>maxNumberOfProblems = 5\<rparr>) ''file:///a.8xp''
     (onDidClose \<lparr>uri = ''file:///a.8xp'', getText = js ''AB + CD''\<rparr>
       (initialState\<lparr>hasConfigurationCapability := True,
          documentSettings := [''file:///a.8xp'' \<mapsto> \<lparr>maxNumberOfProblems = 7\<rparr>,
                               ''file:///b.8xp'' \<mapsto> \<lparr>maxNumberOfProblems = 9\<rparr>]\<rparr>)))
     = \<lparr>maxNumberOfProblems = 5\<rparr> \<and>
   documentSettings (snd (getDocumentSettings (constantClient \<lparr>maxNumberOfProblems = 5\<rparr>)
     ''file:///a.8xp''
     (onDidClose \<lparr>uri = ''file:///a.8xp'', getText = js ''AB + CD''\<rparr>
       (initialState\<lparr>hasConfigurationCapability := True,
          documentSettings := [''file:///a.8xp'' \<mapsto> \<lparr>maxNumberOfProblems = 7\<rparr>,
                               ''file:///b.8xp'' \<mapsto> \<lparr>maxNumberOfProblems = 9\<rparr>]\<rparr>))))
     ''file:///a.8xp'' = Some \<lparr>maxNumberOfProblems = 5\<rparr> \<and>
   \<not> hasConfigurationCapability initialState \<and>
   getDocumentSettings (constantClient \<lparr>maxNumberOfProblems = 5\<rparr>) ''file:///a.8xp''
     (onDidClose \<lparr>uri = ''file:///a.8xp'', getText = js ''AB + CD''\<rparr> initialState) =
     (defaultSettings, onDidClose \<lparr>uri = ''file:///a.8xp'', getText = js ''AB + CD''\<rparr> initialState)"
proof -
  let ?D = "\<lparr>uri = ''file:///a.8xp'', getText = js ''AB + CD''\<rparr>"
  let ?C = "constantClient \<lparr>maxNumberOfProblems = 5\<rparr>"
  let ?S = "initialState\<lparr>hasConfigurationCapability := True,
        documentSettings := [''file:///a.8xp'' \<mapsto> \<lparr>maxNumberOfProblems = 7\<rparr>,
                             ''file:///b.8xp'' \<mapsto> \<lparr>maxNumberOfProblems = 9\<rparr>]\<rparr>"
  have cap: "hasConfigurationCapability ?S" by simp
  have nocap: "\<not> hasConfigurationCapability initialState" "globalSettings initialState = defaultSettings"
    by (simp_all add: initialState_def)
  have ne: "''file:///b.8xp'' \<noteq> uri ?D" by simp
  note a = close_removes_cache_entry[of ?D ?S ?C]
  note b = close_removes_cache_entry[of ?D initialState ?C]
  from a have a1: "documentSettings (onDidClose ?D ?S) ''file:///a.8xp'' = None" by simp
  from a ne have "documentSettings (onDidClose ?D ?S) ''file:///b.8xp'' = documentSettings ?S ''file:///b.8xp''"
    by blast
  then have a2: "documentSettings (onDidClose ?D ?S) ''file:///b.8xp'' = Some \<lparr>maxNumberOfProblems = 9\<rparr>"
    by simp
  from a cap have a3: "getDocumentSettings ?C (uri ?D) (onDidClose ?D ?S) =
        (?C (uri ?D), ?S\<lparr>documentSettings := (documentSettings ?S)(uri ?D \<mapsto> ?C (uri ?D))\<rparr>)"
    by blast
  from b nocap have b1: "getDocumentSettings ?C (uri ?D) (onDidClose ?D initialState) =
      (defaultSettings, onDidClose ?D initialState)"
    by simp
  from a3 have a4: "fst (getDocumentSettings ?C ''file:///a.8xp'' (onDidClose ?D ?S)) = \<lparr>maxNumberOfProblems = 5\<rparr>"
    and a5: "documentSettings (snd (getDocumentSettings ?C ''file:///a.8xp'' (onDidClose ?D ?S)))
       ''file:///a.8xp'' = Some \<lparr>maxNumberOfProblems = 5\<rparr>"
    by (simp_all add: constantClient_def)
  from b1 have b2: "getDocumentSettings ?C ''file:///a.8xp'' (onDidClose ?D initialState) =
      (defaultSettings, onDidClose ?D initialState)" by simp
  from cap a1 a2 a4 a5 nocap(1) b2 show ?thesis by blast
qed

section \<open>The document \<^verbatim>\<open>AB + CD\<close>\<close>

text \<open>
  C1 as stated fails: opening a document whose text is \<^verbatim>\<open>AB + CD\<close> publishes one
  list of diagnostics with one entry, the error of the operator match; no warning is
  part of it, and the number of diagnostics is not 3.
\<close>

theorem open_AB_plus_CD_publishes_one_error:
  "fst (handleNotification (constantClient defaultSettings) offsetAt
     (DidOpenTextDocument \<lparr>uri = ''file:///a.8xp'', getText = js ''AB + CD''\<rparr>) initialState) =
     [(''file:///a.8xp'',
       [\<lparr>severity = Error, range = \<lparr>range_start = 1, range_end = 6\<rparr>,
         message = js '' +  is surrounded by spaces.'', source = js ''ex''\<rparr>])] \<and>
   length (concat (map snd (fst (handleNotification (constantClient defaultSettings) offsetAt
     (DidOpenTextDocument \<lparr>uri = ''file:///a.8xp'', getText = js ''AB + CD''\<rparr>) initialState))))
     \<noteq> 3"
proof -
  have "fst (handleNotification (constantClient defaultSettings) offsetAt
     (DidOpenTextDocument \<lparr>uri = ''file:///a.8xp'', getText = js ''AB + CD''\<rparr>) initialState) =
     [(''file:///a.8xp'',
       [\<lparr>severity = Error, range = \<lparr>range_start = 1, range_end = 6\<rparr>,
         message = js '' +  is surrounded by spaces.'', source = js ''ex''\<rparr>])]"
    by (simp add: case_prod_beta prod_eq_iff fst_onDidChangeContent scan_operator_AB_plus_CD
          offsetAt_def)
  then show ?thesis by simp
qed

text \<open>
  C1, as the code has it: for a document whose entire text is \<^verbatim>\<open>AB + CD\<close>, the
  handler of an open or content change publishes exactly one diagnostic for that
  document, an error whose match is the operator with its two spaces. The upper-case
  scan is \<^verbatim>\<open>validateTextDocument\<close>, which the content-change handler does not
  call; where it runs with a bound of at least 2 it publishes exactly two diagnostics,
  a warning for \<^verbatim>\<open>AB\<close> and a warning for \<^verbatim>\<open>CD\<close>, as a list of its own.
\<close>

theorem AB_plus_CD_diagnostics:
  "fst (onDidChangeContent cfg pos \<lparr>uri = u, getText = js ''AB + CD''\<rparr> s) =
     (u, [\<lparr>severity = Error,
           range = \<lparr>range_start = pos \<lparr>uri = u, getText = js ''AB + CD''\<rparr> 1,
                     range_end = pos \<lparr>uri = u, getText = js ''AB + CD''\<rparr> 6\<rparr>,
           message = js '' +  is surrounded by spaces.'', source = js ''ex''\<rparr>]) \<and>
   (2 \<le> maxNumberOfProblems (fst (getDocumentSettings cfg u s)) \<longrightarrow>
    fst (validateTextDocument cfg pos \<lparr>uri = u, getText = js ''AB + CD''\<rparr> s) =
     (u, [\<lparr>severity = Warning,
           range = \<lparr>range_start = pos \<lparr>uri = u, getText = js ''AB + CD''\<rparr> (- 1),
                     range_end = pos \<lparr>uri = u, getText = js ''AB + CD''\<rparr> 3\<rparr>,
           message = js ''AB is surrounded by spaces.'', source = js ''ex''\<rparr>,
          \<lparr>severity = Warning,
           range = \<lparr>range_start = pos \<lparr>uri = u, getText = js ''AB + CD''\<rparr> 4,
                     range_end = pos \<lparr>uri = u, getText = js ''AB + CD''\<rparr> 8\<rparr>,
           message = js ''CD is surrounded by spaces.'', source = js ''ex''\<rparr>]))"
  by (simp add: prod_eq_iff errors_AB_plus_CD warnings_AB_plus_CD)
     (simp add: fst_onDidChangeContent fst_validateTextDocument)

text \<open>
  With the default settings (a bound of 1000) and positions read as offsets: the error
  has the offsets 1 and 6, the warnings have the offsets -1 and 3, and 4 and 8.
\<close>

theorem AB_plus_CD_diagnostics_witness:
  "2 \<le> maxNumberOfProblems
      (fst (getDocumentSettings (constantClient defaultSettings) ''file:///a.8xp'' initialState)) \<and>
   fst (onDidChangeContent (constantClient defaultSettings) offsetAt
      \<lparr>uri = ''file:///a.8xp'', getText = js ''AB + CD''\<rparr> initialState) =
     (''file:///a.8xp'',
      [\<lparr>severity = Error, range = \<lparr>range_start = 1, range_end = 6\<rparr>,
        message = js '' +  is surrounded by spaces.'', source = js ''ex''\<rparr>]) \<and>
   fst (validateTextDocument (constantClient defaultSettings) offsetAt
      \<lparr>uri = ''file:///a.8xp'', getText = js ''AB + CD''\<rparr> initialState) =
     (''file:///a.8xp'',
      [\<lparr>severity = Warning, range = \<lparr>range_start = - 1, range_end = 3\<rparr>,
        message = js ''AB is surrounded by spaces.'', source = js ''ex''\<rparr>,
       \<lparr>severity = Warning, range = \<lparr>range_start = 4, range_end = 8\<rparr>,
        message = js ''CD is surrounded by spaces.'', source = js ''ex''\<rparr>])"
proof -
  have h: "2 \<le> maxNumberOfProblems
      (fst (getDocumentSettings (constantClient defaultSettings) ''file:///a.8xp'' initialState))"
    by (simp add: getDocumentSettings_initial)
  from h AB_plus_CD_diagnostics[of "constantClient defaultSettings" offsetAt "''file:///a.8xp''"
      initialState]
  show ?thesis by (simp add: offsetAt_def)
qed

section \<open>The completion handlers\<close>

text \<open>
  C5: any two completion requests get the same answer, whatever their position
  parameters and whatever the server state (the open documents and their contents):
  the same entries with the same labels and kinds, in the same order.
\<close>

theorem completion_is_constant:
  "handleRequest (Completion params1) s1 = handleRequest (Completion params2) s2"
  by (simp add: onCompletion_def)

text \<open>
  C6: the resolve handler returns the completion item it is given, unchanged.
\<close>

theorem resolve_is_identity:
  "onCompletionResolve item = item"
  by (simp add: onCompletionResolve_def)

end
